theory Spec2Isabelle
  imports Complex_Main "HOL-Library.Multiset"
begin

section \<open>Data model\<close>

text \<open>
  The scripts work on pandas data frames read from CSV files.  A frame is modelled
  row-wise: the list of its column names and the list of its rows.  The identifier
  columns \<open>study_id\<close> and \<open>site_id\<close> are fields of a row (a study-level row leaves
  \<open>site_id\<close> empty); every other column is numeric and is read through \<open>cells\<close>,
  which is only meaningful at the names listed in \<open>columns\<close>.

  Python floats are modelled as real numbers: the arithmetic is exact and there is no
  NaN and no infinity.  \<open>round(2)\<close> of a float column is numpy's rounding, which
  multiplies by 100, rounds half to even (\<open>rint\<close>) and divides by 100.  Where a property
  depends on how the floating-point operations themselves round, \<open>compute_dqi.py\<close> is
  modelled a second time, with every operation rounded to the nearest double.
\<close>

datatype error = KeyError string | MissingPrerequisite

type_synonym series = "string \<rightharpoonup> real"

record ident =
  study_id :: string
  site_id :: string

record row = ident +
  cells :: "string \<Rightarrow> real"

record dataframe =
  columns :: "string list"
  rows :: "row list"

text \<open>\<open>df[c] = f(row)\<close>: a new column is appended, an existing one is overwritten in place.\<close>

definition assign_column :: "string \<Rightarrow> (row \<Rightarrow> real) \<Rightarrow> dataframe \<Rightarrow> dataframe" where
  "assign_column c f df =
     \<lparr>columns = (if c \<in> set (columns df) then columns df else columns df @ [c]),
      rows = map (\<lambda>r. r\<lparr>cells := (cells r)(c := f r)\<rparr>) (rows df)\<rparr>"

text \<open>The row handed to a function by \<open>df.apply(..., axis=1)\<close>: a series indexed by the
  frame's columns.\<close>

definition row_series :: "string list \<Rightarrow> row \<Rightarrow> series" where
  "row_series cols r = (\<lambda>c. if c \<in> set cols then Some (cells r c) else None)"

definition rint :: "real \<Rightarrow> int" where
  "rint x =
     (let f = \<lfloor>x\<rfloor>; d = x - of_int f
      in if d < 1 / 2 then f else if 1 / 2 < d then f + 1 else if even f then f else f + 1)"

definition round2 :: "real \<Rightarrow> real" where
  "round2 x = of_int (rint (x * 100)) / 100"

section \<open>compute\_dqi.py\<close>

definition CLINICAL_THRESHOLDS :: "(string \<times> real) list" where
  "CLINICAL_THRESHOLDS =
     [(''missing_pages_pct'', 5),
      (''missing_visits_pct'', 10),
      (''unresolved_edrr_pct'', 8),
      (''uncoded_terms_pct'', 7),
      (''pending_sae_pct'', 5)]"

definition threshold :: "string \<Rightarrow> real" where
  "threshold c = (case map_of CLINICAL_THRESHOLDS c of Some t \<Rightarrow> t | None \<Rightarrow> 0)"

definition normalize_signal_vs_threshold :: "real \<Rightarrow> real \<Rightarrow> real" where
  "normalize_signal_vs_threshold signal_pct threshold_pct =
     (if signal_pct \<le> threshold_pct then 0
      else let excess = signal_pct - threshold_pct;
               normalized = (excess / threshold_pct) * 100
           in min normalized 100)"

definition W_pages :: real where "W_pages = 10"
definition W_visits :: real where "W_visits = 15"
definition W_edrr :: real where "W_edrr = 15"
definition W_codes :: real where "W_codes = 12"
definition W_sae :: real where "W_sae = 25"

definition total_weight :: real where
  "total_weight = W_pages + W_visits + W_edrr + W_codes + W_sae"

definition pct_of :: "string \<Rightarrow> row \<Rightarrow> real" where
  "pct_of c r = normalize_signal_vs_threshold (cells r c) (threshold c)"

definition weighted_penalty :: "row \<Rightarrow> real" where
  "weighted_penalty r =
     ((pct_of ''missing_pages_pct'' r * W_pages) +
      (pct_of ''missing_visits_pct'' r * W_visits) +
      (pct_of ''unresolved_edrr_pct'' r * W_edrr) +
      (pct_of ''uncoded_terms_pct'' r * W_codes) +
      (pct_of ''pending_sae_pct'' r * W_sae)) / total_weight"

definition signal_columns :: "string list" where
  "signal_columns =
     [''missing_pages_pct'', ''missing_visits_pct'', ''unresolved_edrr_pct'',
      ''uncoded_terms_pct'', ''pending_sae_pct'']"

text \<open>The body shared by \<open>compute_dqi_study_level\<close> and \<open>compute_dqi_site_level\<close>, which
  are the same code in the source.  Reading a signal column that the frame lacks raises
  \<open>KeyError\<close>.  The penalties are computed from the signal columns before any column is
  written, so each assignment reads the input row \<open>r0\<close>.\<close>

definition dqi_cells :: "row \<Rightarrow> row" where
  "dqi_cells r0 =
     r0\<lparr>cells := (cells r0)
        (''dqi_score'' := round2 (100 - weighted_penalty r0),
         ''penalty_pages'' := round2 (pct_of ''missing_pages_pct'' r0 * (W_pages / total_weight)),
         ''penalty_visits'' := round2 (pct_of ''missing_visits_pct'' r0 * (W_visits / total_weight)),
         ''penalty_edrr'' := round2 (pct_of ''unresolved_edrr_pct'' r0 * (W_edrr / total_weight)),
         ''penalty_codes'' := round2 (pct_of ''uncoded_terms_pct'' r0 * (W_codes / total_weight)),
         ''penalty_sae'' := round2 (pct_of ''pending_sae_pct'' r0 * (W_sae / total_weight)))\<rparr>"

definition add_columns :: "string list \<Rightarrow> string list \<Rightarrow> string list" where
  "add_columns cols new = cols @ filter (\<lambda>c. c \<notin> set cols) new"

definition dqi_frame :: "dataframe \<Rightarrow> error + dataframe" where
  "dqi_frame signals =
     (case filter (\<lambda>c. c \<notin> set (columns signals)) signal_columns of
        c # _ \<Rightarrow> Inl (KeyError c)
      | [] \<Rightarrow> Inr \<lparr>columns = add_columns (columns signals)
                       [''dqi_score'', ''penalty_pages'', ''penalty_visits'', ''penalty_edrr'',
                        ''penalty_codes'', ''penalty_sae''],
                    rows = map dqi_cells (rows signals)\<rparr>)"

definition compute_dqi_study_level :: "dataframe \<Rightarrow> error + dataframe" where
  "compute_dqi_study_level study_signals = dqi_frame study_signals"

definition compute_dqi_site_level :: "dataframe \<Rightarrow> error + dataframe" where
  "compute_dqi_site_level site_signals = dqi_frame site_signals"

text \<open>The script body under \<open>__main__\<close>.  The two input files are \<open>None\<close> when they do
  not exist.  \<open>ANOMALY_DETECTION_AVAILABLE\<close> is the flag set by the guarded import; the two
  functions of the absent module \<open>detect_anomalies\<close> are parameters.  The result is the pair
  of frames written by \<open>save_dqi_scores\<close>.\<close>

definition anomalies_summary :: "dataframe \<Rightarrow> string \<Rightarrow> (real \<times> real) option" where
  "anomalies_summary anomalies_site s =
     (case filter (\<lambda>a. study_id a = s) (rows anomalies_site) of
        [] \<Rightarrow> None
      | g \<Rightarrow> Some (sum_list (map (\<lambda>a. cells a ''anomaly_score'') g) / real (length g),
                   sum_list (map (\<lambda>a. cells a ''is_anomalous'') g)))"

definition merge_anomalies :: "dataframe \<Rightarrow> dataframe \<Rightarrow> dataframe" where
  "merge_anomalies study_dqi anomalies_site =
     assign_column ''num_anomalous_sites''
       (\<lambda>r. case anomalies_summary anomalies_site (study_id r) of None \<Rightarrow> 0 | Some (_, n) \<Rightarrow> n)
       (assign_column ''avg_anomaly_score''
          (\<lambda>r. case anomalies_summary anomalies_site (study_id r) of None \<Rightarrow> 0 | Some (a, _) \<Rightarrow> a)
          study_dqi)"

definition compute_dqi_main ::
  "bool \<Rightarrow> (dataframe \<Rightarrow> dataframe) \<Rightarrow> (dataframe \<Rightarrow> dataframe \<Rightarrow> dataframe) \<Rightarrow>
   dataframe option \<Rightarrow> dataframe option \<Rightarrow> error + (dataframe \<times> dataframe)" where
  "compute_dqi_main ANOMALY_DETECTION_AVAILABLE detect_site_anomalies amplify_risk_for_anomalies
       study_file site_file =
     (case (study_file, site_file) of
        (Some study_signals, Some site_signals) \<Rightarrow>
          (case compute_dqi_study_level study_signals of
             Inl e \<Rightarrow> Inl e
           | Inr study_dqi \<Rightarrow>
               (case compute_dqi_site_level site_signals of
                  Inl e \<Rightarrow> Inl e
                | Inr site_dqi \<Rightarrow>
                    if ANOMALY_DETECTION_AVAILABLE then
                      (let anomalies_site = detect_site_anomalies site_dqi
                       in Inr (merge_anomalies study_dqi anomalies_site,
                               amplify_risk_for_anomalies site_dqi anomalies_site))
                    else
                      Inr (study_dqi,
                           assign_column ''dqi_score_amplified'' (\<lambda>r. cells r ''dqi_score'') site_dqi)))
      | _ \<Rightarrow> Inl MissingPrerequisite)"

section \<open>Double-precision arithmetic\<close>

text \<open>
  Python floats are IEEE-754 doubles, and every arithmetic operation returns the double
  nearest to the exact result, ties going to the even significand.  \<open>fl\<close> is that rounding,
  as a function on the reals: a double with exponent \<open>e\<close> is a multiple of \<open>2 powi (e - 52)\<close>;
  below \<open>2 powi (- 1022)\<close> the doubles are the multiples of \<open>2 powi (- 1074)\<close>.  The exponent
  of \<open>x\<close> is found by halving or doubling \<open>x\<close> at most 2100 times, which is enough for every
  finite double.  Overflow to infinity is not modelled: in \<open>compute_dqi.py\<close> a value that
  large can only arise inside \<open>min(normalized, 100.0)\<close>, which is 100.0 either way.

  The exact model above is what the code computes when no operation rounds; the model
  below is the same code with every operation rounded.  They are told apart by the
  suffix \<open>f64\<close>.
\<close>

fun ilog2_fuel :: "nat \<Rightarrow> real \<Rightarrow> int" where
  "ilog2_fuel 0 x = 0"
| "ilog2_fuel (Suc n) x =
     (if 2 \<le> x then ilog2_fuel n (x / 2) + 1
      else if x < 1 then ilog2_fuel n (x * 2) - 1
      else 0)"

definition fl :: "real \<Rightarrow> real" where
  "fl x =
     (if \<bar>x\<bar> < 2 powi (- 1022) then of_int (rint (x / 2 powi (- 1074))) * 2 powi (- 1074)
      else let e = ilog2_fuel 2100 \<bar>x\<bar>
           in of_int (rint (x / 2 powi (e - 52))) * 2 powi (e - 52))"

section \<open>compute\_dqi.py in double precision\<close>

definition normalize_f64 :: "real \<Rightarrow> real \<Rightarrow> real" where
  "normalize_f64 signal_pct threshold_pct =
     (if signal_pct \<le> threshold_pct then 0
      else let excess = fl (signal_pct - threshold_pct);
               normalized = fl (fl (excess / threshold_pct) * 100)
           in min normalized 100)"

text \<open>numpy's \<open>round(2)\<close>: multiply by 100, \<open>rint\<close>, divide by 100, each a double operation.\<close>

definition round2_f64 :: "real \<Rightarrow> real" where
  "round2_f64 x = fl (of_int (rint (fl (x * 100))) / 100)"

definition pct_f64 :: "string \<Rightarrow> row \<Rightarrow> real" where
  "pct_f64 c r = normalize_f64 (cells r c) (threshold c)"

definition weighted_f64 :: "real \<Rightarrow> real \<Rightarrow> real \<Rightarrow> real \<Rightarrow> real \<Rightarrow> real" where
  "weighted_f64 pct_pages pct_visits pct_edrr pct_codes pct_sae =
     fl (fl (fl (fl (fl (fl (pct_pages * W_pages) + fl (pct_visits * W_visits))
                     + fl (pct_edrr * W_edrr))
                 + fl (pct_codes * W_codes))
             + fl (pct_sae * W_sae))
         / total_weight)"

definition score_f64 :: "real \<Rightarrow> real \<Rightarrow> real \<Rightarrow> real \<Rightarrow> real \<Rightarrow> real" where
  "score_f64 pct_pages pct_visits pct_edrr pct_codes pct_sae =
     round2_f64 (fl (100 - weighted_f64 pct_pages pct_visits pct_edrr pct_codes pct_sae))"

definition pen_f64 :: "real \<Rightarrow> real \<Rightarrow> real" where
  "pen_f64 pct W = round2_f64 (fl (pct * fl (W / total_weight)))"

definition dqi_cells_f64 :: "row \<Rightarrow> row" where
  "dqi_cells_f64 r0 =
     r0\<lparr>cells := (cells r0)
        (''dqi_score'' :=
           score_f64 (pct_f64 ''missing_pages_pct'' r0) (pct_f64 ''missing_visits_pct'' r0)
             (pct_f64 ''unresolved_edrr_pct'' r0) (pct_f64 ''uncoded_terms_pct'' r0)
             (pct_f64 ''pending_sae_pct'' r0),
         ''penalty_pages'' := pen_f64 (pct_f64 ''missing_pages_pct'' r0) W_pages,
         ''penalty_visits'' := pen_f64 (pct_f64 ''missing_visits_pct'' r0) W_visits,
         ''penalty_edrr'' := pen_f64 (pct_f64 ''unresolved_edrr_pct'' r0) W_edrr,
         ''penalty_codes'' := pen_f64 (pct_f64 ''uncoded_terms_pct'' r0) W_codes,
         ''penalty_sae'' := pen_f64 (pct_f64 ''pending_sae_pct'' r0) W_sae)\<rparr>"

definition dqi_frame_f64 :: "dataframe \<Rightarrow> error + dataframe" where
  "dqi_frame_f64 signals =
     (case filter (\<lambda>c. c \<notin> set (columns signals)) signal_columns of
        c # _ \<Rightarrow> Inl (KeyError c)
      | [] \<Rightarrow> Inr \<lparr>columns = add_columns (columns signals)
                       [''dqi_score'', ''penalty_pages'', ''penalty_visits'', ''penalty_edrr'',
                        ''penalty_codes'', ''penalty_sae''],
                    rows = map dqi_cells_f64 (rows signals)\<rparr>)"

definition compute_dqi_study_level_f64 :: "dataframe \<Rightarrow> error + dataframe" where
  "compute_dqi_study_level_f64 study_signals = dqi_frame_f64 study_signals"

definition compute_dqi_site_level_f64 :: "dataframe \<Rightarrow> error + dataframe" where
  "compute_dqi_site_level_f64 site_signals = dqi_frame_f64 site_signals"

section \<open>risk\_ranking.py\<close>

text \<open>\<open>Series.quantile(q)\<close> with pandas' default linear interpolation: on the sorted values
  the position \<open>q * (n - 1)\<close> is interpolated between its two neighbours.  An empty series
  has quantile NaN, modelled as \<open>None\<close>; every comparison with NaN is false.\<close>

definition quantile :: "real list \<Rightarrow> real \<Rightarrow> real option" where
  "quantile xs q =
     (if xs = [] then None
      else let s = sort xs;
               pos = q * real (length xs - 1);
               lo = nat \<lfloor>pos\<rfloor>;
               hi = min (lo + 1) (length xs - 1)
           in Some (s ! lo + (pos - real lo) * (s ! hi - s ! lo)))"

definition le_nan :: "real \<Rightarrow> real option \<Rightarrow> bool" where
  "le_nan x p = (case p of None \<Rightarrow> False | Some v \<Rightarrow> x \<le> v)"

definition assign_risk :: "real option \<Rightarrow> real option \<Rightarrow> real \<Rightarrow> string" where
  "assign_risk p90 p75 score =
     (if le_nan score p90 then ''High Risk''
      else if le_nan score p75 then ''Medium Risk''
      else ''Low Risk'')"

definition categorize_risk_with_guardrails :: "real list \<Rightarrow> string list" where
  "categorize_risk_with_guardrails dqi_scores_series =
     (let p90 = quantile dqi_scores_series (90 / 100);
          p75 = quantile dqi_scores_series (75 / 100)
      in map (assign_risk p90 p75) dqi_scores_series)"

definition penalty_cols :: "(string \<times> string) list" where
  "penalty_cols =
     [(''penalty_pages'', ''CRF Pages''),
      (''penalty_visits'', ''Missing Visits''),
      (''penalty_edrr'', ''EDRR Queries''),
      (''penalty_codes'', ''Uncoded Terms''),
      (''penalty_sae'', ''SAE Reviews'')]"

definition pct_cols :: "(string \<times> string) list" where
  "pct_cols =
     [(''missing_pages_pct'', ''CRF Pages''),
      (''missing_visits_pct'', ''Missing Visits''),
      (''unresolved_edrr_pct'', ''EDRR Queries''),
      (''uncoded_terms_pct'', ''Uncoded Terms''),
      (''pending_sae_pct'', ''SAE Reviews'')]"

definition signal_cols :: "series \<Rightarrow> (string \<times> string) list" where
  "signal_cols row = (if row ''penalty_pages'' = None then pct_cols else penalty_cols)"

text \<open>The dictionary \<open>penalties\<close>, in insertion order (the labels are distinct).\<close>

definition penalties :: "series \<Rightarrow> (string \<times> real) list" where
  "penalties row =
     map (\<lambda>(col, label). (label, case row col of Some v \<Rightarrow> v | None \<Rightarrow> 0)) (signal_cols row)"

text \<open>Python's slice \<open>xs[:n]\<close>; a negative \<open>n\<close> counts from the end.\<close>

definition slice_to :: "int \<Rightarrow> 'a list \<Rightarrow> 'a list" where
  "slice_to n xs = (if 0 \<le> n then take (nat n) xs else take (length xs - nat (- n)) xs)"

text \<open>\<open>sorted(..., key=..., reverse=True)\<close> is a stable sort by descending key.\<close>

definition sorted_reverse :: "('a \<Rightarrow> real) \<Rightarrow> 'a list \<Rightarrow> 'a list" where
  "sorted_reverse key xs = sort_key (\<lambda>x. - key x) xs"

definition identify_top_penalty_drivers :: "series \<Rightarrow> int \<Rightarrow> string list" where
  "identify_top_penalty_drivers row top_n =
     (let sorted_penalties = sorted_reverse snd (penalties row)
      in map fst (filter (\<lambda>p. 0 < snd p) (slice_to top_n sorted_penalties)))"

fun join :: "string \<Rightarrow> string list \<Rightarrow> string" where
  "join sep [] = []"
| "join sep [x] = x"
| "join sep (x # y # ys) = x @ sep @ join sep (y # ys)"

record ranked_row = row +
  risk :: string
  drivers :: string
  driver_kind :: string

record ranking = ident +
  dqi_score :: real
  risk_level :: string
  total_signal_pct :: real
  top_risk_drivers :: string

record study_rank = ranking +
  rank :: nat

record site_rank = ranking +
  global_rank :: nat
  within_study_rank :: nat
  risk_driver :: string

definition dqi_column :: "dataframe \<Rightarrow> string" where
  "dqi_column ranked =
     (if ''dqi_score_amplified'' \<in> set (columns ranked) then ''dqi_score_amplified''
      else ''dqi_score'')"

text \<open>The frame after \<open>risk_level\<close> and \<open>top_risk_drivers\<close> have been added, in input order.
  The new columns are text, so they do not change what \<open>identify_top_penalty_drivers\<close> reads.
  \<open>driver_kind\<close> is the site-level column \<open>risk_driver\<close>.\<close>

definition categorized :: "dataframe \<Rightarrow> ranked_row list" where
  "categorized df =
     (let c = dqi_column df
      in map2 (\<lambda>r lvl.
                \<lparr>study_id = study_id r, site_id = site_id r, cells = cells r,
                 risk = lvl,
                 drivers = join '', '' (identify_top_penalty_drivers (row_series (columns df) r) 2),
                 driver_kind =
                   (if ''is_anomalous'' \<in> set (columns df) \<and> cells r ''is_anomalous'' = 1
                       \<and> lvl = ''High Risk''
                    then ''ML-Detected Anomaly'' else ''Rule-based'')\<rparr>)
           (rows df)
           (categorize_risk_with_guardrails (map (\<lambda>r. cells r c) (rows df))))"

text \<open>\<open>sort_values(col)\<close>: ascending.  pandas sorts with quicksort, which fixes no order
  among equal keys; the model takes the stable order.\<close>

definition sort_values :: "string \<Rightarrow> ('a row_scheme) list \<Rightarrow> ('a row_scheme) list" where
  "sort_values c xs = sort_key (\<lambda>r. cells r c) xs"

definition get_or_zero :: "string list \<Rightarrow> 'a row_scheme \<Rightarrow> string \<Rightarrow> real" where
  "get_or_zero cols r c = (if c \<in> set cols then cells r c else 0)"

definition total_signal :: "string list \<Rightarrow> 'a row_scheme \<Rightarrow> real" where
  "total_signal cols r =
     get_or_zero cols r ''missing_pages_pct'' +
     get_or_zero cols r ''missing_visits_pct'' +
     get_or_zero cols r ''unresolved_edrr_pct'' +
     get_or_zero cols r ''uncoded_terms_pct'' +
     get_or_zero cols r ''pending_sae_pct''"

definition ranked_frame :: "dataframe \<Rightarrow> ranked_row list" where
  "ranked_frame df = sort_values (dqi_column df) (categorized df)"

definition rank_studies :: "dataframe \<Rightarrow> error + study_rank list" where
  "rank_studies study_dqi =
     (if ''dqi_score'' \<notin> set (columns study_dqi) then Inl (KeyError ''dqi_score'')
      else let ranked = ranked_frame study_dqi
           in Inr (map2 (\<lambda>k r.
                     \<lparr>study_id = study_id r, site_id = site_id r,
                      dqi_score = cells r ''dqi_score'', risk_level = risk r,
                      total_signal_pct = total_signal (columns study_dqi) r,
                      top_risk_drivers = drivers r, rank = k\<rparr>)
                   [1 ..< length ranked + 1] ranked))"

text \<open>\<open>groupby(key).cumcount()\<close>: how many earlier rows carry the same key.\<close>

fun cumcount :: "'a list \<Rightarrow> 'a list \<Rightarrow> nat list" where
  "cumcount seen [] = []"
| "cumcount seen (x # xs) = count_list seen x # cumcount (seen @ [x]) xs"

definition rank_sites :: "dataframe \<Rightarrow> error + site_rank list" where
  "rank_sites site_dqi =
     (if ''dqi_score'' \<notin> set (columns site_dqi) then Inl (KeyError ''dqi_score'')
      else let ranked = ranked_frame site_dqi
           in Inr (map2 (\<lambda>(k, w) r.
                     \<lparr>study_id = study_id r, site_id = site_id r,
                      dqi_score = cells r ''dqi_score'', risk_level = risk r,
                      total_signal_pct = total_signal (columns site_dqi) r,
                      top_risk_drivers = drivers r,
                      global_rank = k, within_study_rank = w + 1, risk_driver = driver_kind r\<rparr>)
                   (zip [1 ..< length ranked + 1] (cumcount [] (map study_id ranked))) ranked))"

section \<open>Vocabulary of the properties\<close>

text \<open>The value \<open>penalties[label]\<close> that \<open>identify_top_penalty_drivers\<close> sorts by, the
  position of a label in the declared signal order, and the order the returned labels are
  claimed to follow: larger penalty first, declared order on ties.\<close>

definition penalty_value :: "series \<Rightarrow> string \<Rightarrow> real" where
  "penalty_value row label = (case map_of (penalties row) label of Some v \<Rightarrow> v | None \<Rightarrow> 0)"

definition declared_order :: "string list" where
  "declared_order = map snd penalty_cols"

definition position :: "string \<Rightarrow> nat" where
  "position label = length (takeWhile (\<lambda>l. l \<noteq> label) declared_order)"

definition driver_before :: "series \<Rightarrow> string \<Rightarrow> string \<Rightarrow> bool" where
  "driver_before row a b =
     (penalty_value row b < penalty_value row a
      \<or> (penalty_value row a = penalty_value row b \<and> position a < position b))"

text \<open>The interpolation inside \<open>quantile\<close>, as a function of the position in the sorted
  list.\<close>

definition interp :: "real list \<Rightarrow> real \<Rightarrow> real" where
  "interp s pos = s ! nat \<lfloor>pos\<rfloor>
      + (pos - real (nat \<lfloor>pos\<rfloor>)) * (s ! min (nat \<lfloor>pos\<rfloor> + 1) (length s - 1) - s ! nat \<lfloor>pos\<rfloor>)"

text \<open>The input row that a row of the ranked frame was made from.\<close>

definition source_row :: "ranked_row \<Rightarrow> row" where
  "source_row a = \<lparr>study_id = study_id a, site_id = site_id a, cells = cells a\<rparr>"

text \<open>What the assignment \<open>site_dqi['dqi_score_amplified'] = site_dqi['dqi_score']\<close> does
  to one row.\<close>

definition with_amplified :: "'a row_scheme \<Rightarrow> 'a row_scheme" where
  "with_amplified r = r\<lparr>cells := (cells r)(''dqi_score_amplified'' := cells r ''dqi_score'')\<rparr>"

section \<open>Example inputs\<close>

text \<open>The example scenario: only missing visits, at 20 percent, exceed their threshold.\<close>

definition example_row :: row where
  "example_row = \<lparr>study_id = ''Study 1'', site_id = '''',
     cells = (\<lambda>_. 0)(''missing_visits_pct'' := 20)\<rparr>"

definition example_signals :: dataframe where
  "example_signals = \<lparr>columns = signal_columns, rows = [example_row]\<rparr>"

definition example_dqi_frame :: dataframe where
  "example_dqi_frame =
     \<lparr>columns = signal_columns @ [''dqi_score'', ''penalty_pages'', ''penalty_visits'',
                        ''penalty_edrr'', ''penalty_codes'', ''penalty_sae''],
      rows = [dqi_cells example_row]\<rparr>"

text \<open>A record with every signal at or below its threshold (pages exactly at it).\<close>

definition clean_row :: row where
  "clean_row = \<lparr>study_id = ''Study 2'', site_id = '''',
     cells = (\<lambda>_. 0)(''missing_pages_pct'' := 5, ''missing_visits_pct'' := 3)\<rparr>"

definition clean_signals :: dataframe where
  "clean_signals = \<lparr>columns = signal_columns, rows = [clean_row]\<rparr>"

text \<open>Two rows for the driver attributor: one with a tie between visits and EDRR, one that
  has only two of the penalty columns.\<close>

definition driver_example :: series where
  "driver_example = [''penalty_pages'' \<mapsto> 3, ''penalty_visits'' \<mapsto> 7, ''penalty_edrr'' \<mapsto> 7,
                     ''penalty_codes'' \<mapsto> 0, ''penalty_sae'' \<mapsto> 1]"

definition partial_example :: series where
  "partial_example = [''penalty_pages'' \<mapsto> 4, ''penalty_sae'' \<mapsto> 9]"

text \<open>Three sites of two studies.  Sorted by \<open>dqi_score_amplified\<close> the sites come in the
  order 1, 2, 3; sorted by \<open>dqi_score\<close> in the order 2, 3, 1.  The two frames differ only in
  whether the amplified column is present.\<close>

definition site_A :: row where
  "site_A = \<lparr>study_id = ''Study 1'', site_id = ''Site 1'',
              cells = (\<lambda>_. 0)(''dqi_score'' := 90, ''dqi_score_amplified'' := 60)\<rparr>"

definition site_B :: row where
  "site_B = \<lparr>study_id = ''Study 2'', site_id = ''Site 2'',
              cells = (\<lambda>_. 0)(''dqi_score'' := 70, ''dqi_score_amplified'' := 70)\<rparr>"

definition site_C :: row where
  "site_C = \<lparr>study_id = ''Study 1'', site_id = ''Site 3'',
              cells = (\<lambda>_. 0)(''dqi_score'' := 80, ''dqi_score_amplified'' := 80)\<rparr>"

definition amplified_sites :: dataframe where
  "amplified_sites = \<lparr>columns = [''dqi_score'', ''dqi_score_amplified''],
                       rows = [site_A, site_B, site_C]\<rparr>"

definition plain_sites :: dataframe where
  "plain_sites = \<lparr>columns = [''dqi_score''], rows = [site_A, site_B, site_C]\<rparr>"

definition plain_ranking :: "study_rank list" where
  "plain_ranking =
    [\<lparr>study_id = ''Study 2'', site_id = ''Site 2'', dqi_score = 70, risk_level = ''High Risk'',
      total_signal_pct = 0, top_risk_drivers = '''', rank = 1\<rparr>,
     \<lparr>study_id = ''Study 1'', site_id = ''Site 3'', dqi_score = 80, risk_level = ''High Risk'',
      total_signal_pct = 0, top_risk_drivers = '''', rank = 2\<rparr>,
     \<lparr>study_id = ''Study 1'', site_id = ''Site 1'', dqi_score = 90, risk_level = ''Low Risk'',
      total_signal_pct = 0, top_risk_drivers = '''', rank = 3\<rparr>]"

definition amplified_ranking :: "site_rank list" where
  "amplified_ranking =
    [\<lparr>study_id = ''Study 1'', site_id = ''Site 1'', dqi_score = 90, risk_level = ''High Risk'',
      total_signal_pct = 0, top_risk_drivers = '''',
      global_rank = 1, within_study_rank = 1, risk_driver = ''Rule-based''\<rparr>,
     \<lparr>study_id = ''Study 2'', site_id = ''Site 2'', dqi_score = 70, risk_level = ''High Risk'',
      total_signal_pct = 0, top_risk_drivers = '''',
      global_rank = 2, within_study_rank = 1, risk_driver = ''Rule-based''\<rparr>,
     \<lparr>study_id = ''Study 1'', site_id = ''Site 3'', dqi_score = 80, risk_level = ''Low Risk'',
      total_signal_pct = 0, top_risk_drivers = '''',
      global_rank = 3, within_study_rank = 2, risk_driver = ''Rule-based''\<rparr>]"

text \<open>A record whose five penalties and whose score all sit on a rounding tie in exact
  arithmetic: the penalties are 9.685, 7.965, 1.185, 10.545 and 6.645, the score is 63.975.
  The signals of \<open>tie_row\<close> are the doubles nearest to 8.728725, 14.0887, 8.48664,
  11.7364625 and 6.02333; \<open>tie_row_exact\<close> has these decimals themselves.\<close>

definition tie_pages :: real where "tie_pages = fl (8728725 / 1000000)"
definition tie_visits :: real where "tie_visits = fl (140887 / 10000)"
definition tie_edrr :: real where "tie_edrr = fl (848664 / 100000)"
definition tie_codes :: real where "tie_codes = fl (117364625 / 10000000)"
definition tie_sae :: real where "tie_sae = fl (602333 / 100000)"

definition tie_row :: row where
  "tie_row = \<lparr>study_id = ''Study 3'', site_id = '''',
     cells = (\<lambda>_. 0)(''missing_pages_pct'' := tie_pages, ''missing_visits_pct'' := tie_visits,
        ''unresolved_edrr_pct'' := tie_edrr, ''uncoded_terms_pct'' := tie_codes,
        ''pending_sae_pct'' := tie_sae)\<rparr>"

definition tie_signals :: dataframe where
  "tie_signals = \<lparr>columns = signal_columns, rows = [tie_row]\<rparr>"

definition tie_dqi_frame :: dataframe where
  "tie_dqi_frame =
     \<lparr>columns = signal_columns @ [''dqi_score'', ''penalty_pages'', ''penalty_visits'',
                        ''penalty_edrr'', ''penalty_codes'', ''penalty_sae''],
      rows = [dqi_cells_f64 tie_row]\<rparr>"

definition tie_row_exact :: row where
  "tie_row_exact = \<lparr>study_id = ''Study 3'', site_id = '''',
     cells = (\<lambda>_. 0)(''missing_pages_pct'' := 8728725 / 1000000,
        ''missing_visits_pct'' := 140887 / 10000,
        ''unresolved_edrr_pct'' := 848664 / 100000,
        ''uncoded_terms_pct'' := 117364625 / 10000000,
        ''pending_sae_pct'' := 602333 / 100000)\<rparr>"

section \<open>Rounding\<close>

lemma rint_err: "\<bar>real_of_int (rint x) - x\<bar> \<le> 1/2"
  unfolding rint_def Let_def by (auto simp: abs_le_iff)

lemma rint_tie_even: "\<bar>real_of_int (rint x) - x\<bar> = 1/2 \<Longrightarrow> even (rint x)"
  unfolding rint_def Let_def by (auto split: if_splits) 

lemma six_round:
  fixes y0 y1 y2 y3 y4 y5 :: real
  assumes sum: "y0 + y1 + y2 + y3 + y4 + y5 = 10000"
  shows "\<bar>rint y0 + rint y1 + rint y2 + rint y3 + rint y4 + rint y5 - 10000\<bar> \<le> 2"
proof -
  define S where "S = rint y0 + rint y1 + rint y2 + rint y3 + rint y4 + rint y5"
  define e where "e y = real_of_int (rint y) - y" for y
  have b: "\<bar>e y\<bar> \<le> 1/2" for y unfolding e_def by (rule rint_err)
  have ev: "\<bar>e y\<bar> = 1/2 \<Longrightarrow> even (rint y)" for y unfolding e_def by (rule rint_tie_even)
  have S: "real_of_int S - 10000 = e y0 + e y1 + e y2 + e y3 + e y4 + e y5"
    using sum unfolding S_def e_def by simp
  have bound: "\<bar>real_of_int S - 10000\<bar> \<le> 3"
    using b[of y0] b[of y1] b[of y2] b[of y3] b[of y4] b[of y5] unfolding S by linarith
  have "\<bar>S - 10000\<bar> \<noteq> 3"
  proof
    assume three: "\<bar>S - 10000\<bar> = 3"
    then have "\<bar>real_of_int S - 10000\<bar> = 3" by linarith
    then have all: "\<bar>e y0\<bar> = 1/2 \<and> \<bar>e y1\<bar> = 1/2 \<and> \<bar>e y2\<bar> = 1/2 \<and> \<bar>e y3\<bar> = 1/2 \<and> \<bar>e y4\<bar> = 1/2 \<and> \<bar>e y5\<bar> = 1/2"
      using b[of y0] b[of y1] b[of y2] b[of y3] b[of y4] b[of y5] unfolding S by linarith
    then have "even S" unfolding S_def using ev by simp
    with three show False by presburger
  qed
  moreover have "\<bar>S - 10000\<bar> \<le> 3" using bound by linarith
  ultimately show ?thesis unfolding S_def by linarith
qed

lemma rint_of_int: "rint (of_int k) = k"
  by (simp add: rint_def)

lemma round2_100: "round2 100 = 100"
proof -
  have "rint (100 * 100) = 10000" using rint_of_int [of 10000] by simp
  then show ?thesis by (simp add: round2_def)
qed

section \<open>The threshold normalizer\<close>

lemma threshold_simps:
  "threshold ''missing_pages_pct'' = 5" "threshold ''missing_visits_pct'' = 10"
  "threshold ''unresolved_edrr_pct'' = 8" "threshold ''uncoded_terms_pct'' = 7"
  "threshold ''pending_sae_pct'' = 5"
  by (simp_all add: threshold_def CLINICAL_THRESHOLDS_def)

text \<open>C5: for every signal value and every positive threshold, the threshold normalizer
  returns 0 when the signal is at or below the threshold and
  \<open>min(100, (signal - threshold) / threshold * 100)\<close> above it; its result lies in
  \<open>[0, 100]\<close> and is exactly 100 at twice the threshold.\<close>

theorem threshold_normalizer:
  assumes "0 < t"
  shows "(s \<le> t \<longrightarrow> normalize_signal_vs_threshold s t = 0)
       \<and> (t < s \<longrightarrow> normalize_signal_vs_threshold s t = min 100 ((s - t) / t * 100))
       \<and> 0 \<le> normalize_signal_vs_threshold s t \<and> normalize_signal_vs_threshold s t \<le> 100
       \<and> normalize_signal_vs_threshold (2 * t) t = 100"
  using assms by (auto simp: normalize_signal_vs_threshold_def Let_def min_def)

theorem threshold_normalizer_witness:
  "(0::real) < 10
   \<and> normalize_signal_vs_threshold 4 10 = 0
   \<and> normalize_signal_vs_threshold 12 10 = 20
   \<and> normalize_signal_vs_threshold 35 10 = 100
   \<and> normalize_signal_vs_threshold 20 10 = 100"
  using threshold_normalizer [of 10 4] threshold_normalizer [of 10 12]
    threshold_normalizer [of 10 35]
  by simp

section \<open>The DQI aggregator\<close>

lemma dqi_cells_read:
  "cells (dqi_cells r) ''dqi_score'' = round2 (100 - weighted_penalty r)"
  "cells (dqi_cells r) ''penalty_pages'' = round2 (pct_of ''missing_pages_pct'' r * (W_pages / total_weight))"
  "cells (dqi_cells r) ''penalty_visits'' = round2 (pct_of ''missing_visits_pct'' r * (W_visits / total_weight))"
  "cells (dqi_cells r) ''penalty_edrr'' = round2 (pct_of ''unresolved_edrr_pct'' r * (W_edrr / total_weight))"
  "cells (dqi_cells r) ''penalty_codes'' = round2 (pct_of ''uncoded_terms_pct'' r * (W_codes / total_weight))"
  "cells (dqi_cells r) ''penalty_sae'' = round2 (pct_of ''pending_sae_pct'' r * (W_sae / total_weight))"
  by (simp_all add: dqi_cells_def)

lemma dqi_cells_signals:
  "c \<in> set signal_columns \<Longrightarrow> cells (dqi_cells r) c = cells r c"
  by (auto simp: dqi_cells_def signal_columns_def)

lemma dqi_cells_balance:
  "\<bar>cells (dqi_cells r) ''dqi_score'' + (cells (dqi_cells r) ''penalty_pages''
      + cells (dqi_cells r) ''penalty_visits'' + cells (dqi_cells r) ''penalty_edrr''
      + cells (dqi_cells r) ''penalty_codes'' + cells (dqi_cells r) ''penalty_sae'') - 100\<bar> \<le> 2 / 100"
proof -
  define a where "a = pct_of ''missing_pages_pct'' r"
  define b where "b = pct_of ''missing_visits_pct'' r"
  define c where "c = pct_of ''unresolved_edrr_pct'' r"
  define d where "d = pct_of ''uncoded_terms_pct'' r"
  define e where "e = pct_of ''pending_sae_pct'' r"
  define y0 where "y0 = (100 - (a * 10 + b * 15 + c * 15 + d * 12 + e * 25) / 77) * 100"
  have sum: "y0 + a * (10 / 77) * 100 + b * (15 / 77) * 100 + c * (15 / 77) * 100
               + d * (12 / 77) * 100 + e * (25 / 77) * 100 = 10000"
    unfolding y0_def by (simp add: field_simps)
  have "\<bar>rint y0 + rint (a * (10 / 77) * 100) + rint (b * (15 / 77) * 100)
          + rint (c * (15 / 77) * 100) + rint (d * (12 / 77) * 100)
          + rint (e * (25 / 77) * 100) - 10000\<bar> \<le> 2"
    by (rule six_round [OF sum])
  then have "\<bar>real_of_int (rint y0) + real_of_int (rint (a * (10 / 77) * 100)) + real_of_int (rint (b * (15 / 77) * 100))
          + real_of_int (rint (c * (15 / 77) * 100)) + real_of_int (rint (d * (12 / 77) * 100))
          + real_of_int (rint (e * (25 / 77) * 100)) - 10000\<bar> \<le> 2"
    by linarith
  then have "\<bar>round2 (100 - (a * 10 + b * 15 + c * 15 + d * 12 + e * 25) / 77)
              + (round2 (a * (10 / 77)) + round2 (b * (15 / 77)) + round2 (c * (15 / 77))
              + round2 (d * (12 / 77)) + round2 (e * (25 / 77))) - 100\<bar> \<le> 2 / 100"
    unfolding round2_def y0_def by (simp add: field_simps)
  then show ?thesis
    unfolding dqi_cells_read weighted_penalty_def total_weight_def W_pages_def W_visits_def
      W_edrr_def W_codes_def W_sae_def a_def b_def c_def d_def e_def
    by simp
qed

lemma pct_of_zero:
  "c \<in> set signal_columns \<Longrightarrow> cells r c \<le> threshold c \<Longrightarrow> pct_of c r = 0"
  by (simp add: pct_of_def normalize_signal_vs_threshold_def)

lemma dqi_cells_clean:
  assumes "\<forall>c \<in> set signal_columns. cells r c \<le> threshold c"
  shows "cells (dqi_cells r) ''dqi_score'' = 100"
proof -
  have "weighted_penalty r = 0"
    using assms by (simp add: weighted_penalty_def pct_of_zero signal_columns_def)
  then show ?thesis by (simp add: dqi_cells_read round2_100)
qed

lemma dqi_frame_rows:
  "dqi_frame signals = Inr out \<Longrightarrow> rows out = map dqi_cells (rows signals)"
  by (auto simp: dqi_frame_def split: list.splits)

lemma dqi_frame_columns:
  "dqi_frame signals = Inr out \<Longrightarrow>
     columns out = add_columns (columns signals)
       [''dqi_score'', ''penalty_pages'', ''penalty_visits'', ''penalty_edrr'',
        ''penalty_codes'', ''penalty_sae'']"
  by (auto simp: dqi_frame_def split: list.splits)

lemma dqi_frame_new_column:
  assumes "dqi_frame signals = Inr out" and "c \<notin> set (columns signals)"
    and "c \<notin> set [''dqi_score'', ''penalty_pages'', ''penalty_visits'', ''penalty_edrr'',
                    ''penalty_codes'', ''penalty_sae'']"
  shows "c \<notin> set (columns out)"
  using assms(2,3) unfolding dqi_frame_columns [OF assms(1)] add_columns_def by auto

lemma example_dqi:
  "compute_dqi_study_level example_signals =
     Inr \<lparr>columns = signal_columns @ [''dqi_score'', ''penalty_pages'', ''penalty_visits'', ''penalty_edrr'',
                        ''penalty_codes'', ''penalty_sae''], rows = [dqi_cells example_row]\<rparr>"
  by (simp add: compute_dqi_study_level_def dqi_frame_def example_signals_def signal_columns_def add_columns_def)

lemma example_pct:
  "pct_of ''missing_pages_pct'' example_row = 0"
  "pct_of ''missing_visits_pct'' example_row = 100"
  "pct_of ''unresolved_edrr_pct'' example_row = 0"
  "pct_of ''uncoded_terms_pct'' example_row = 0"
  "pct_of ''pending_sae_pct'' example_row = 0"
  by (simp_all add: pct_of_def threshold_simps example_row_def normalize_signal_vs_threshold_def)

lemma example_values:
  "cells (dqi_cells example_row) ''dqi_score'' = 8052 / 100"
  "cells (dqi_cells example_row) ''penalty_visits'' = 1948 / 100"
  "cells (dqi_cells example_row) ''penalty_pages'' = 0"
  by (simp_all add: dqi_cells_read weighted_penalty_def example_pct total_weight_def W_pages_def W_visits_def
      W_edrr_def W_codes_def W_sae_def round2_def rint_def Let_def)

lemma clean_dqi:
  "compute_dqi_study_level clean_signals =
     Inr \<lparr>columns = signal_columns @ [''dqi_score'', ''penalty_pages'', ''penalty_visits'', ''penalty_edrr'',
                        ''penalty_codes'', ''penalty_sae''], rows = [dqi_cells clean_row]\<rparr>"
  by (simp add: compute_dqi_study_level_def dqi_frame_def clean_signals_def signal_columns_def add_columns_def)

text \<open>In exact arithmetic, the rounded \<open>dqi_score\<close> plus the five rounded penalty fields of
  every record of the DQI aggregator is within 0.02 of 100.  The six rounding errors are at
  most 0.005 each; all six can only be 0.005 in the same direction at ties, and ties round to
  even, which the total of 100 then contradicts.  The argument needs the six values to be
  exact: once the operations round, a value on a tie can land on either side of it.\<close>

lemma dqi_balance_exact:
  assumes "compute_dqi_study_level signals = Inr out \<or> compute_dqi_site_level signals = Inr out"
    and "r \<in> set (rows out)"
  shows "\<bar>cells r ''dqi_score'' + (cells r ''penalty_pages'' + cells r ''penalty_visits''
           + cells r ''penalty_edrr'' + cells r ''penalty_codes'' + cells r ''penalty_sae'') - 100\<bar>
         \<le> 2 / 100"
proof -
  from assms(1) have "rows out = map dqi_cells (rows signals)"
    unfolding compute_dqi_study_level_def compute_dqi_site_level_def
    by (auto dest: dqi_frame_rows)
  with assms(2) obtain r0 where "r = dqi_cells r0" by auto
  then show ?thesis using dqi_cells_balance [of r0] by simp
qed

lemma dqi_balance_exact_example:
  "compute_dqi_study_level example_signals =
     Inr \<lparr>columns = signal_columns @ [''dqi_score'', ''penalty_pages'', ''penalty_visits'',
                        ''penalty_edrr'', ''penalty_codes'', ''penalty_sae''],
          rows = [dqi_cells example_row]\<rparr>
   \<and> cells (dqi_cells example_row) ''dqi_score'' = 8052 / 100
   \<and> cells (dqi_cells example_row) ''penalty_visits'' = 1948 / 100
   \<and> \<bar>cells (dqi_cells example_row) ''dqi_score''
        + (cells (dqi_cells example_row) ''penalty_pages''
           + cells (dqi_cells example_row) ''penalty_visits''
           + cells (dqi_cells example_row) ''penalty_edrr''
           + cells (dqi_cells example_row) ''penalty_codes''
           + cells (dqi_cells example_row) ''penalty_sae'') - 100\<bar> \<le> 2 / 100"
proof -
  have r: "dqi_cells example_row \<in> set (rows \<lparr>columns = signal_columns @ [''dqi_score'', ''penalty_pages'', ''penalty_visits'',
                        ''penalty_edrr'', ''penalty_codes'', ''penalty_sae''],
          rows = [dqi_cells example_row]\<rparr>)" by simp
  note b = dqi_balance_exact [OF disjI1 [OF example_dqi] r]
  show ?thesis
    by (intro conjI example_dqi example_values(1) example_values(2) b)
qed

text \<open>C9: every record whose five signals are each at or below their clinical threshold gets
  \<open>dqi_score\<close> exactly 100 from the DQI aggregator.\<close>

theorem clean_record_scores_100:
  assumes "compute_dqi_study_level signals = Inr out \<or> compute_dqi_site_level signals = Inr out"
    and "r \<in> set (rows out)"
    and "\<forall>c \<in> set signal_columns. cells r c \<le> threshold c"
  shows "cells r ''dqi_score'' = 100"
proof -
  from assms(1) have "rows out = map dqi_cells (rows signals)"
    unfolding compute_dqi_study_level_def compute_dqi_site_level_def
    by (auto dest: dqi_frame_rows)
  with assms(2) obtain r0 where r: "r = dqi_cells r0" by auto
  with assms(3) have "\<forall>c \<in> set signal_columns. cells r0 c \<le> threshold c"
    by (simp add: dqi_cells_signals)
  then show ?thesis unfolding r by (rule dqi_cells_clean)
qed

theorem clean_record_scores_100_witness:
  "compute_dqi_study_level clean_signals =
     Inr \<lparr>columns = signal_columns @ [''dqi_score'', ''penalty_pages'', ''penalty_visits'',
                        ''penalty_edrr'', ''penalty_codes'', ''penalty_sae''],
          rows = [dqi_cells clean_row]\<rparr>
   \<and> cells (dqi_cells clean_row) ''missing_pages_pct'' \<le> threshold ''missing_pages_pct''
   \<and> cells (dqi_cells clean_row) ''missing_visits_pct'' \<le> threshold ''missing_visits_pct''
   \<and> cells (dqi_cells clean_row) ''unresolved_edrr_pct'' \<le> threshold ''unresolved_edrr_pct''
   \<and> cells (dqi_cells clean_row) ''uncoded_terms_pct'' \<le> threshold ''uncoded_terms_pct''
   \<and> cells (dqi_cells clean_row) ''pending_sae_pct'' \<le> threshold ''pending_sae_pct''
   \<and> cells (dqi_cells clean_row) ''dqi_score'' = 100"
proof -
  have r: "dqi_cells clean_row \<in> set (rows \<lparr>columns = signal_columns @ [''dqi_score'', ''penalty_pages'', ''penalty_visits'',
                        ''penalty_edrr'', ''penalty_codes'', ''penalty_sae''],
          rows = [dqi_cells clean_row]\<rparr>)" by simp
  have h: "\<forall>c \<in> set signal_columns. cells (dqi_cells clean_row) c \<le> threshold c"
    by (simp add: signal_columns_def dqi_cells_def clean_row_def threshold_simps)
  show ?thesis
    using clean_record_scores_100 [OF disjI1 [OF clean_dqi] r h] clean_dqi h
    by (simp add: signal_columns_def)
qed

section \<open>Rounding to the nearest double\<close>

lemma rint_nonneg: "0 \<le> x \<Longrightarrow> 0 \<le> rint x"
  unfolding rint_def Let_def by auto

lemma two_powi_less_D: "(2::real) powi a < 2 powi b \<Longrightarrow> a < b"
  using power_int_increasing [of b a "2::real"] by (cases "a < b") auto

lemma two_powi_le_D: "(2::real) powi a \<le> 2 powi b \<Longrightarrow> a \<le> b"
  using power_int_strict_increasing [of b a "2::real"] by (cases "a \<le> b") auto

lemma ilog2_fuel_correct:
  "0 < x \<Longrightarrow> 2 powi e \<le> x \<Longrightarrow> x < 2 powi (e + 1) \<Longrightarrow> \<bar>e\<bar> \<le> int n \<Longrightarrow> ilog2_fuel n x = e"
proof (induction n arbitrary: x e)
  case 0
  then show ?case by simp
next
  case (Suc n)
  consider "2 \<le> x" | "x < 1" | "1 \<le> x" "x < 2" by linarith
  then show ?case
  proof cases
    case 1
    have "(2::real) powi 1 < 2 powi (e + 1)" using 1 Suc.prems(3) by simp
    then have e: "1 \<le> e" using two_powi_less_D [of 1 "e + 1"] by simp
    have "2 powi (e - 1) \<le> x / 2" using Suc.prems(2) by (simp add: power_int_diff)
    moreover have "x / 2 < 2 powi (e - 1 + 1)" using Suc.prems(3) by (simp add: power_int_add)
    moreover have "\<bar>e - 1\<bar> \<le> int n" using e Suc.prems(4) by simp
    ultimately have "ilog2_fuel n (x / 2) = e - 1" using Suc.IH [of "x / 2" "e - 1"] Suc.prems(1) by simp
    then show ?thesis using 1 by simp
  next
    case 2
    have "(2::real) powi e < 2 powi 0" using 2 Suc.prems(2) by simp
    then have e: "e < 0" using two_powi_less_D [of e 0] by simp
    have "2 powi (e + 1) \<le> x * 2" using Suc.prems(2) by (simp add: power_int_add)
    moreover have "x * 2 < 2 powi (e + 1 + 1)" using Suc.prems(3) by (simp add: power_int_add)
    moreover have "\<bar>e + 1\<bar> \<le> int n" using e Suc.prems(4) by simp
    ultimately have "ilog2_fuel n (x * 2) = e + 1" using Suc.IH [of "x * 2" "e + 1"] Suc.prems(1) by simp
    then show ?thesis using 2 by simp
  next
    case 3
    have "(2::real) powi e < 2 powi 1" using 3 Suc.prems(2) by simp
    then have "e < 1" using two_powi_less_D [of e 1] by simp
    moreover have "(2::real) powi 0 < 2 powi (e + 1)" using 3 Suc.prems(3) by simp
    then have "0 < e + 1" using two_powi_less_D [of 0 "e + 1"] by simp
    ultimately have "e = 0" by simp
    then show ?thesis using 3 by simp
  qed
qed

lemma fl_at:
  assumes "2 powi e \<le> \<bar>x\<bar>" and "\<bar>x\<bar> < 2 powi (e + 1)" and "- 1022 \<le> e" and "e \<le> 2100"
  shows "fl x = of_int (rint (x / 2 powi (e - 52))) * 2 powi (e - 52)"
proof -
  have "(2::real) powi (- 1022) \<le> 2 powi e" using assms(3) by (intro power_int_increasing) auto
  then have n: "\<not> \<bar>x\<bar> < 2 powi (- 1022)" using assms(1) by linarith
  have "0 < \<bar>x\<bar>" using assms(1) zero_less_power_int [of "2::real" e] by linarith
  moreover have "\<bar>e\<bar> \<le> int 2100" using assms(3,4) by simp
  ultimately have "ilog2_fuel 2100 \<bar>x\<bar> = e" using assms(1,2) by (intro ilog2_fuel_correct)
  then show ?thesis using n by (simp add: fl_def Let_def)
qed

lemma exponent_exists:
  assumes "0 < (x::real)"
  shows "\<exists>e. 2 powi e \<le> x \<and> x < 2 powi (e + 1)"
proof -
  define e where "e = \<lfloor>log 2 x\<rfloor>"
  have "real_of_int e \<le> log 2 x" "log 2 x < real_of_int (e + 1)" unfolding e_def by linarith+
  then have "2 powr real_of_int e \<le> x" "x < 2 powr real_of_int (e + 1)"
    using assms by (simp_all only: powr_le_iff less_powr_iff)
  then have "2 powi e \<le> x \<and> x < 2 powi (e + 1)"
    by (simp only: powr_real_of_int' [of "2::real", simplified])
  then show ?thesis ..
qed

lemma fl_nonneg: "0 \<le> x \<Longrightarrow> 0 \<le> fl x"
  by (auto simp: fl_def Let_def intro!: mult_nonneg_nonneg rint_nonneg divide_nonneg_pos)

lemma scaled_round_error:
  assumes "0 < (c::real)"
  shows "\<bar>of_int (rint (x / c)) * c - x\<bar> \<le> c / 2"
proof -
  have "of_int (rint (x / c)) * c - x = (of_int (rint (x / c)) - x / c) * c"
    using assms by (simp add: field_simps)
  then have "\<bar>of_int (rint (x / c)) * c - x\<bar> = \<bar>of_int (rint (x / c)) - x / c\<bar> * c"
    using assms by (simp add: abs_mult)
  also have "\<dots> \<le> 1 / 2 * c" using assms by (intro mult_right_mono rint_err) simp
  finally show ?thesis by simp
qed

lemma half_powi: "(2::real) powi e / 2 = 2 powi (e - 1)"
  by (simp add: power_int_diff)

lemma fl_error:
  assumes "\<bar>x\<bar> \<le> 2 powi k" and "- 1022 \<le> k" and "k \<le> 2100"
  shows "\<bar>fl x - x\<bar> \<le> 2 powi (k - 53)"
proof (cases "\<bar>x\<bar> < 2 powi (- 1022)")
  case True
  then have "fl x = of_int (rint (x / 2 powi (- 1074))) * 2 powi (- 1074)"
    by (simp only: fl_def if_True)
  then have "\<bar>fl x - x\<bar> \<le> 2 powi (- 1074) / 2"
    using scaled_round_error [of "2 powi (- 1074)" x] by (simp only: zero_less_power_int zero_less_numeral)
  also have "\<dots> = 2 powi (- 1074 - 1)" by (rule half_powi)
  also have "\<dots> \<le> 2 powi (k - 53)" using assms(2) by (intro power_int_increasing) auto
  finally show ?thesis .
next
  case False
  then have "0 < \<bar>x\<bar>" using zero_less_power_int [of "2::real" "- 1022"] by linarith
  then obtain e where e: "2 powi e \<le> \<bar>x\<bar>" "\<bar>x\<bar> < 2 powi (e + 1)"
    using exponent_exists by blast
  have "(2::real) powi (- 1022) < 2 powi (e + 1)" using False e(2) by linarith
  then have lo: "- 1022 \<le> e" using two_powi_less_D [of "- 1022" "e + 1"] by simp
  have "(2::real) powi e \<le> 2 powi k" using e(1) assms(1) by linarith
  then have ek: "e \<le> k" by (rule two_powi_le_D)
  have "fl x = of_int (rint (x / 2 powi (e - 52))) * 2 powi (e - 52)"
    using e lo ek assms(3) by (intro fl_at) auto
  then have "\<bar>fl x - x\<bar> \<le> 2 powi (e - 52) / 2"
    using scaled_round_error [of "2 powi (e - 52)" x] by simp
  also have "\<dots> = 2 powi (e - 52 - 1)" by (rule half_powi)
  also have "\<dots> \<le> 2 powi (k - 53)" using ek by (intro power_int_increasing) auto
  finally show ?thesis .
qed

lemma ilog2_fuel_unfold:
  "ilog2_fuel n x =
     (if n = 0 then 0
      else if 2 \<le> x then ilog2_fuel (n - 1) (x / 2) + 1
      else if x < 1 then ilog2_fuel (n - 1) (x * 2) - 1
      else 0)"
  by (cases n) simp_all

lemma fl_near:
  assumes "- 16384 \<le> x" and "x \<le> 16384"
  shows "x - 1 / 549755813888 \<le> fl x" and "fl x \<le> x + 1 / 549755813888"
proof -
  have "\<bar>x\<bar> \<le> 2 powi 14" using assms by simp
  then have "\<bar>fl x - x\<bar> \<le> 2 powi (14 - 53)" by (rule fl_error) simp_all
  then have "\<bar>fl x - x\<bar> \<le> 1 / 549755813888" by simp
  then show "x - 1 / 549755813888 \<le> fl x" and "fl x \<le> x + 1 / 549755813888" by linarith+
qed

section \<open>The DQI aggregator in double precision\<close>

lemma total_weight_77: "total_weight = 77"
  by (simp add: total_weight_def W_pages_def W_visits_def W_edrr_def W_codes_def W_sae_def)

lemma weighted_f64_num:
  "weighted_f64 p1 p2 p3 p4 p5 =
     fl (fl (fl (fl (fl (fl (p1 * 10) + fl (p2 * 15)) + fl (p3 * 15)) + fl (p4 * 12)) + fl (p5 * 25)) / 77)"
  by (simp only: weighted_f64_def W_pages_def W_visits_def W_edrr_def W_codes_def W_sae_def
      total_weight_77)

lemma pen_f64_num: "pen_f64 p w = round2_f64 (fl (p * fl (w / 77)))"
  by (simp only: pen_f64_def total_weight_77)

lemma normalize_f64_range:
  assumes "0 < t"
  shows "0 \<le> normalize_f64 s t" and "normalize_f64 s t \<le> 100"
proof -
  show "normalize_f64 s t \<le> 100" by (simp add: normalize_f64_def Let_def)
  show "0 \<le> normalize_f64 s t"
  proof (cases "s \<le> t")
    case True
    then show ?thesis by (simp add: normalize_f64_def)
  next
    case False
    then have "0 \<le> s - t" by simp
    then have "0 \<le> fl (s - t)" by (rule fl_nonneg)
    then have "0 \<le> fl (s - t) / t" using assms by simp
    then have "0 \<le> fl (fl (s - t) / t)" by (rule fl_nonneg)
    then have "0 \<le> fl (fl (s - t) / t) * 100" by simp
    then have "0 \<le> fl (fl (fl (s - t) / t) * 100)" by (rule fl_nonneg)
    then show ?thesis using False by (simp add: normalize_f64_def Let_def)
  qed
qed

lemma penalty_scaled:
  assumes "0 \<le> p" and "p \<le> 100" and "0 \<le> w" and "w \<le> 25"
  shows "p * w / 77 * 100 - 10101 / 549755813888 \<le> fl (fl (p * fl (w / 77)) * 100)"
    and "fl (fl (p * fl (w / 77)) * 100) \<le> p * w / 77 * 100 + 10101 / 549755813888"
    and "0 \<le> fl (fl (p * fl (w / 77)) * 100)"
    and "fl (fl (p * fl (w / 77)) * 100) \<le> 16384"
proof -
  define d :: real where "d = 1 / 549755813888"
  define c where "c = fl (w / 77)"
  define v where "v = fl (p * c)"
  define x where "x = fl (v * 100)"
  have d: "0 < d" "d < 1 / 1000000" by (simp_all add: d_def)
  have w: "0 \<le> w / 77" "w / 77 \<le> 25 / 77" using assms(3,4) by simp_all
  have c: "w / 77 - d \<le> c" "c \<le> w / 77 + d"
    unfolding c_def d_def using w by (intro fl_near; linarith)+
  have c0: "0 \<le> c" unfolding c_def using w by (intro fl_nonneg)
  have c1: "c \<le> 1" using c w d by linarith
  have pc: "0 \<le> p * c" "p * c \<le> 100"
    using assms(1,2) c0 c1 mult_mono [of p 100 c 1] by simp_all
  have v: "p * c - d \<le> v" "v \<le> p * c + d"
    unfolding v_def d_def using pc by (intro fl_near; linarith)+
  have v0: "0 \<le> v" unfolding v_def using pc by (intro fl_nonneg)
  have x: "v * 100 - d \<le> x" "x \<le> v * 100 + d"
    unfolding x_def d_def using v v0 pc d by (intro fl_near; linarith)+
  have x0: "0 \<le> x" unfolding x_def using v0 by (intro fl_nonneg) simp
  have pd: "p * d \<le> 100 * d" using assms(2) d by simp
  have "p * (c - w / 77) \<le> p * d" using assms(1) c by (intro mult_left_mono) linarith+
  then have "p * c - p * w / 77 \<le> p * d" by (simp add: algebra_simps)
  then have up: "p * c \<le> p * w / 77 + 100 * d" using pd by linarith
  have "p * (- d) \<le> p * (c - w / 77)" using assms(1) c by (intro mult_left_mono) linarith+
  then have "- (p * d) \<le> p * c - p * w / 77" by (simp add: algebra_simps)
  then have lo: "p * w / 77 - 100 * d \<le> p * c" using pd by linarith
  have "x \<le> p * w / 77 * 100 + 10101 * d" using x v up by linarith
  moreover have "p * w / 77 * 100 - 10101 * d \<le> x" using x v lo by linarith
  moreover have "x \<le> 16384" using x v pc d by linarith
  ultimately show "p * w / 77 * 100 - 10101 / 549755813888 \<le> fl (fl (p * fl (w / 77)) * 100)"
    and "fl (fl (p * fl (w / 77)) * 100) \<le> p * w / 77 * 100 + 10101 / 549755813888"
    and "0 \<le> fl (fl (p * fl (w / 77)) * 100)"
    and "fl (fl (p * fl (w / 77)) * 100) \<le> 16384"
    using x0 unfolding x_def v_def c_def d_def by simp_all
qed

lemma score_scaled:
  assumes "0 \<le> p1" "p1 \<le> 100" "0 \<le> p2" "p2 \<le> 100" "0 \<le> p3" "p3 \<le> 100"
    "0 \<le> p4" "p4 \<le> 100" "0 \<le> p5" "p5 \<le> 100"
  shows "(100 - (p1 * 10 + p2 * 15 + p3 * 15 + p4 * 12 + p5 * 25) / 77) * 100 - 300 / 549755813888
           \<le> fl (fl (100 - weighted_f64 p1 p2 p3 p4 p5) * 100)"
    and "fl (fl (100 - weighted_f64 p1 p2 p3 p4 p5) * 100)
           \<le> (100 - (p1 * 10 + p2 * 15 + p3 * 15 + p4 * 12 + p5 * 25) / 77) * 100 + 300 / 549755813888"
    and "- 1 \<le> fl (fl (100 - weighted_f64 p1 p2 p3 p4 p5) * 100)"
    and "fl (fl (100 - weighted_f64 p1 p2 p3 p4 p5) * 100) \<le> 16384"
proof -
  define d :: real where "d = 1 / 549755813888"
  define a1 where "a1 = fl (p1 * 10)"
  define a2 where "a2 = fl (p2 * 15)"
  define a3 where "a3 = fl (p3 * 15)"
  define a4 where "a4 = fl (p4 * 12)"
  define a5 where "a5 = fl (p5 * 25)"
  define s2 where "s2 = fl (a1 + a2)"
  define s3 where "s3 = fl (s2 + a3)"
  define s4 where "s4 = fl (s3 + a4)"
  define s5 where "s5 = fl (s4 + a5)"
  define wp where "wp = fl (s5 / 77)"
  define q where "q = fl (100 - wp)"
  define x where "x = fl (q * 100)"
  have d: "0 < d" "d < 1 / 1000000" by (simp_all add: d_def)
  have a1: "p1 * 10 - d \<le> a1" "a1 \<le> p1 * 10 + d"
    unfolding a1_def d_def using assms by (intro fl_near; linarith)+
  have a2: "p2 * 15 - d \<le> a2" "a2 \<le> p2 * 15 + d"
    unfolding a2_def d_def using assms by (intro fl_near; linarith)+
  have a3: "p3 * 15 - d \<le> a3" "a3 \<le> p3 * 15 + d"
    unfolding a3_def d_def using assms by (intro fl_near; linarith)+
  have a4: "p4 * 12 - d \<le> a4" "a4 \<le> p4 * 12 + d"
    unfolding a4_def d_def using assms by (intro fl_near; linarith)+
  have a5: "p5 * 25 - d \<le> a5" "a5 \<le> p5 * 25 + d"
    unfolding a5_def d_def using assms by (intro fl_near; linarith)+
  have s2: "a1 + a2 - d \<le> s2" "s2 \<le> a1 + a2 + d"
    unfolding s2_def d_def using a1 a2 assms d by (intro fl_near; linarith)+
  have s3: "s2 + a3 - d \<le> s3" "s3 \<le> s2 + a3 + d"
    unfolding s3_def d_def using s2 a1 a2 a3 assms d by (intro fl_near; linarith)+
  have s4: "s3 + a4 - d \<le> s4" "s4 \<le> s3 + a4 + d"
    unfolding s4_def d_def using s3 s2 a1 a2 a3 a4 assms d by (intro fl_near; linarith)+
  have s5: "s4 + a5 - d \<le> s5" "s5 \<le> s4 + a5 + d"
    unfolding s5_def d_def using s4 s3 s2 a1 a2 a3 a4 a5 assms d by (intro fl_near; linarith)+
  define T where "T = p1 * 10 + p2 * 15 + p3 * 15 + p4 * 12 + p5 * 25"
  have Tb: "0 \<le> T" "T \<le> 7700" unfolding T_def using assms by linarith+
  have S: "T - 9 * d \<le> s5" "s5 \<le> T + 9 * d"
    unfolding T_def using s5 s4 s3 s2 a1 a2 a3 a4 a5 by linarith+
  have Sb: "- 1 \<le> s5" "s5 \<le> 7701" using S Tb d by linarith+
  have wp: "s5 / 77 - d \<le> wp" "wp \<le> s5 / 77 + d"
    unfolding wp_def d_def using Sb by (intro fl_near; linarith)+
  have wpb: "- 1 \<le> wp" "wp \<le> 101" using wp Sb d by linarith+
  have q: "100 - wp - d \<le> q" "q \<le> 100 - wp + d"
    unfolding q_def d_def using wpb by (intro fl_near; linarith)+
  have qb: "- 2 \<le> q" "q \<le> 102" using q wpb d by linarith+
  have x: "q * 100 - d \<le> x" "x \<le> q * 100 + d"
    unfolding x_def d_def using qb by (intro fl_near; linarith)+
  let ?y = "(100 - (p1 * 10 + p2 * 15 + p3 * 15 + p4 * 12 + p5 * 25) / 77) * 100"
  have y: "?y = 10000 - T * (100 / 77)" unfolding T_def by (simp add: algebra_simps)
  have S77: "s5 / 77 = s5 * (1 / 77)" by simp
  have "x \<le> 10000 - T * (100 / 77) + 300 * d" using x q wp S d unfolding S77 by linarith
  moreover have "10000 - T * (100 / 77) - 300 * d \<le> x" using x q wp S d unfolding S77 by linarith
  moreover have "0 \<le> 10000 - T * (100 / 77)" "10000 - T * (100 / 77) \<le> 10000" using Tb by linarith+
  ultimately have "?y - 300 * d \<le> x" "x \<le> ?y + 300 * d" "- 1 \<le> x" "x \<le> 16384"
    unfolding y using d by linarith+
  then show "?y - 300 / 549755813888 \<le> fl (fl (100 - weighted_f64 p1 p2 p3 p4 p5) * 100)"
    and "fl (fl (100 - weighted_f64 p1 p2 p3 p4 p5) * 100) \<le> ?y + 300 / 549755813888"
    and "- 1 \<le> fl (fl (100 - weighted_f64 p1 p2 p3 p4 p5) * 100)"
    and "fl (fl (100 - weighted_f64 p1 p2 p3 p4 p5) * 100) \<le> 16384"
    unfolding x_def q_def wp_def s5_def s4_def s3_def s2_def a1_def a2_def a3_def a4_def a5_def
      weighted_f64_num d_def
    by simp_all
qed

lemma rint_near: "x - 1 / 2 \<le> real_of_int (rint x)" "real_of_int (rint x) \<le> x + 1 / 2"
  using rint_err [of x] by linarith+

lemma six_round_near:
  fixes x0 x1 x2 x3 x4 x5 y0 y1 y2 y3 y4 y5 :: real
  assumes "y0 + y1 + y2 + y3 + y4 + y5 = 10000"
    and "y0 - 1 / 16 \<le> x0" "x0 \<le> y0 + 1 / 16" "y1 - 1 / 16 \<le> x1" "x1 \<le> y1 + 1 / 16"
    and "y2 - 1 / 16 \<le> x2" "x2 \<le> y2 + 1 / 16" "y3 - 1 / 16 \<le> x3" "x3 \<le> y3 + 1 / 16"
    and "y4 - 1 / 16 \<le> x4" "x4 \<le> y4 + 1 / 16" "y5 - 1 / 16 \<le> x5" "x5 \<le> y5 + 1 / 16"
  shows "9997 \<le> rint x0 + rint x1 + rint x2 + rint x3 + rint x4 + rint x5"
    and "rint x0 + rint x1 + rint x2 + rint x3 + rint x4 + rint x5 \<le> 10003"
proof -
  define S where "S = rint x0 + rint x1 + rint x2 + rint x3 + rint x4 + rint x5"
  have S: "real_of_int S = real_of_int (rint x0) + real_of_int (rint x1) + real_of_int (rint x2)
             + real_of_int (rint x3) + real_of_int (rint x4) + real_of_int (rint x5)"
    by (simp add: S_def)
  have "real_of_int S \<le> 10003 + 3 / 8"
    unfolding S using assms rint_near(2) [of x0] rint_near(2) [of x1] rint_near(2) [of x2]
      rint_near(2) [of x3] rint_near(2) [of x4] rint_near(2) [of x5] by linarith
  moreover have "9997 - 3 / 8 \<le> real_of_int S"
    unfolding S using assms rint_near(1) [of x0] rint_near(1) [of x1] rint_near(1) [of x2]
      rint_near(1) [of x3] rint_near(1) [of x4] rint_near(1) [of x5] by linarith
  ultimately have "S \<le> 10003" "9997 \<le> S" by linarith+
  then show "9997 \<le> rint x0 + rint x1 + rint x2 + rint x3 + rint x4 + rint x5"
    and "rint x0 + rint x1 + rint x2 + rint x3 + rint x4 + rint x5 \<le> 10003"
    unfolding S_def by simp_all
qed

lemma stored_near:
  assumes "- 1 \<le> x" and "x \<le> 16384"
  shows "real_of_int (rint x) / 100 - 1 / 549755813888 \<le> fl (real_of_int (rint x) / 100)"
    and "fl (real_of_int (rint x) / 100) \<le> real_of_int (rint x) / 100 + 1 / 549755813888"
proof -
  have "- 2 \<le> real_of_int (rint x)" "real_of_int (rint x) \<le> 16385"
    using assms rint_near [of x] by linarith+
  then have "- 16384 \<le> real_of_int (rint x) / 100" "real_of_int (rint x) / 100 \<le> 16384"
    by simp_all
  then show "real_of_int (rint x) / 100 - 1 / 549755813888 \<le> fl (real_of_int (rint x) / 100)"
    and "fl (real_of_int (rint x) / 100) \<le> real_of_int (rint x) / 100 + 1 / 549755813888"
    by (rule fl_near)+
qed

lemma balance_f64:
  assumes "0 \<le> p1" "p1 \<le> 100" "0 \<le> p2" "p2 \<le> 100" "0 \<le> p3" "p3 \<le> 100"
    "0 \<le> p4" "p4 \<le> 100" "0 \<le> p5" "p5 \<le> 100"
  shows "\<bar>score_f64 p1 p2 p3 p4 p5
           + (pen_f64 p1 10 + pen_f64 p2 15 + pen_f64 p3 15 + pen_f64 p4 12 + pen_f64 p5 25) - 100\<bar>
         \<le> 3 / 100 + 1 / 10000000000"
proof -
  define x0 where "x0 = fl (fl (100 - weighted_f64 p1 p2 p3 p4 p5) * 100)"
  define x1 where "x1 = fl (fl (p1 * fl (10 / 77)) * 100)"
  define x2 where "x2 = fl (fl (p2 * fl (15 / 77)) * 100)"
  define x3 where "x3 = fl (fl (p3 * fl (15 / 77)) * 100)"
  define x4 where "x4 = fl (fl (p4 * fl (12 / 77)) * 100)"
  define x5 where "x5 = fl (fl (p5 * fl (25 / 77)) * 100)"
  define y0 where "y0 = (100 - (p1 * 10 + p2 * 15 + p3 * 15 + p4 * 12 + p5 * 25) / 77) * 100"
  define d :: real where "d = 1 / 549755813888"
  have d: "0 < d" "10101 * d \<le> 1 / 16" "300 * d \<le> 1 / 16" "6 * d \<le> 1 / 10000000000"
    by (simp_all add: d_def)
  note s = score_scaled [OF assms, folded x0_def y0_def d_def]
  note q1 = penalty_scaled [OF assms(1,2), of 10, folded x1_def d_def, simplified]
  note q2 = penalty_scaled [OF assms(3,4), of 15, folded x2_def d_def, simplified]
  note q3 = penalty_scaled [OF assms(5,6), of 15, folded x3_def d_def, simplified]
  note q4 = penalty_scaled [OF assms(7,8), of 12, folded x4_def d_def, simplified]
  note q5 = penalty_scaled [OF assms(9,10), of 25, folded x5_def d_def, simplified]
  have sum: "y0 + p1 * 10 / 77 * 100 + p2 * 15 / 77 * 100 + p3 * 15 / 77 * 100
               + p4 * 12 / 77 * 100 + p5 * 25 / 77 * 100 = 10000"
    unfolding y0_def by (simp add: field_simps)
  have R: "9997 \<le> rint x0 + rint x1 + rint x2 + rint x3 + rint x4 + rint x5"
    "rint x0 + rint x1 + rint x2 + rint x3 + rint x4 + rint x5 \<le> 10003"
    using six_round_near [OF sum, of x0 x1 x2 x3 x4 x5] s(1,2) q1(1,2) q2(1,2) q3(1,2) q4(1,2) q5(1,2) d
    by linarith+
  then have R': "9997 \<le> real_of_int (rint x0) + real_of_int (rint x1) + real_of_int (rint x2)
      + real_of_int (rint x3) + real_of_int (rint x4) + real_of_int (rint x5)"
    "real_of_int (rint x0) + real_of_int (rint x1) + real_of_int (rint x2)
      + real_of_int (rint x3) + real_of_int (rint x4) + real_of_int (rint x5) \<le> 10003"
    by linarith+
  note o0 = stored_near [OF s(3,4), folded d_def]
  have m: "- 1 \<le> x1" "- 1 \<le> x2" "- 1 \<le> x3" "- 1 \<le> x4" "- 1 \<le> x5"
    using q1(3) q2(3) q3(3) q4(3) q5(3) by linarith+
  note o1 = stored_near [OF m(1) q1(4), folded d_def]
  note o2 = stored_near [OF m(2) q2(4), folded d_def]
  note o3 = stored_near [OF m(3) q3(4), folded d_def]
  note o4 = stored_near [OF m(4) q4(4), folded d_def]
  note o5 = stored_near [OF m(5) q5(4), folded d_def]
  have out: "score_f64 p1 p2 p3 p4 p5 = fl (real_of_int (rint x0) / 100)"
    "pen_f64 p1 10 = fl (real_of_int (rint x1) / 100)"
    "pen_f64 p2 15 = fl (real_of_int (rint x2) / 100)"
    "pen_f64 p3 15 = fl (real_of_int (rint x3) / 100)"
    "pen_f64 p4 12 = fl (real_of_int (rint x4) / 100)"
    "pen_f64 p5 25 = fl (real_of_int (rint x5) / 100)"
    by (simp_all only: score_f64_def pen_f64_num round2_f64_def x0_def x1_def x2_def x3_def x4_def x5_def)
  have "score_f64 p1 p2 p3 p4 p5
           + (pen_f64 p1 10 + pen_f64 p2 15 + pen_f64 p3 15 + pen_f64 p4 12 + pen_f64 p5 25) - 100
         \<le> 3 / 100 + 6 * d"
    unfolding out using R'(2) o0(2) o1(2) o2(2) o3(2) o4(2) o5(2) by linarith
  moreover have "- (3 / 100 + 6 * d) \<le> score_f64 p1 p2 p3 p4 p5
           + (pen_f64 p1 10 + pen_f64 p2 15 + pen_f64 p3 15 + pen_f64 p4 12 + pen_f64 p5 25) - 100"
    unfolding out using R'(1) o0(1) o1(1) o2(1) o3(1) o4(1) o5(1) by linarith
  ultimately show ?thesis using d(4) by linarith
qed

lemma dqi_cells_f64_read:
  "cells (dqi_cells_f64 r) ''dqi_score'' =
     score_f64 (pct_f64 ''missing_pages_pct'' r) (pct_f64 ''missing_visits_pct'' r)
       (pct_f64 ''unresolved_edrr_pct'' r) (pct_f64 ''uncoded_terms_pct'' r)
       (pct_f64 ''pending_sae_pct'' r)"
  "cells (dqi_cells_f64 r) ''penalty_pages'' = pen_f64 (pct_f64 ''missing_pages_pct'' r) 10"
  "cells (dqi_cells_f64 r) ''penalty_visits'' = pen_f64 (pct_f64 ''missing_visits_pct'' r) 15"
  "cells (dqi_cells_f64 r) ''penalty_edrr'' = pen_f64 (pct_f64 ''unresolved_edrr_pct'' r) 15"
  "cells (dqi_cells_f64 r) ''penalty_codes'' = pen_f64 (pct_f64 ''uncoded_terms_pct'' r) 12"
  "cells (dqi_cells_f64 r) ''penalty_sae'' = pen_f64 (pct_f64 ''pending_sae_pct'' r) 25"
  by (simp_all add: dqi_cells_f64_def W_pages_def W_visits_def W_edrr_def W_codes_def W_sae_def)

lemma pct_f64_range:
  assumes "c \<in> set signal_columns"
  shows "0 \<le> pct_f64 c r" and "pct_f64 c r \<le> 100"
proof -
  have "0 < threshold c" using assms by (auto simp: signal_columns_def threshold_simps)
  then show "0 \<le> pct_f64 c r" and "pct_f64 c r \<le> 100"
    unfolding pct_f64_def by (rule normalize_f64_range)+
qed

lemma dqi_cells_f64_balance:
  "\<bar>cells (dqi_cells_f64 r) ''dqi_score'' + (cells (dqi_cells_f64 r) ''penalty_pages''
      + cells (dqi_cells_f64 r) ''penalty_visits'' + cells (dqi_cells_f64 r) ''penalty_edrr''
      + cells (dqi_cells_f64 r) ''penalty_codes'' + cells (dqi_cells_f64 r) ''penalty_sae'') - 100\<bar>
   \<le> 3 / 100 + 1 / 10000000000"
  unfolding dqi_cells_f64_read
  by (rule balance_f64) (simp_all add: pct_f64_range signal_columns_def)

lemma dqi_frame_f64_rows:
  "dqi_frame_f64 signals = Inr out \<Longrightarrow> rows out = map dqi_cells_f64 (rows signals)"
  by (auto simp: dqi_frame_f64_def split: list.splits)

text \<open>C4 (as amended): in every record produced by the DQI aggregator, at study or at site
  level, the rounded \<open>dqi_score\<close> plus the five rounded penalty fields is within 0.03 of 100,
  up to the representation error of the six stored doubles, which is below \<open>10\<^sup>-\<^sup>1\<^sup>0\<close>.\<close>

theorem dqi_balance_f64:
  assumes "compute_dqi_study_level_f64 signals = Inr out
           \<or> compute_dqi_site_level_f64 signals = Inr out"
    and "r \<in> set (rows out)"
  shows "\<bar>cells r ''dqi_score'' + (cells r ''penalty_pages'' + cells r ''penalty_visits''
           + cells r ''penalty_edrr'' + cells r ''penalty_codes'' + cells r ''penalty_sae'') - 100\<bar>
         \<le> 3 / 100 + 1 / 10000000000"
proof -
  from assms(1) have "rows out = map dqi_cells_f64 (rows signals)"
    unfolding compute_dqi_study_level_f64_def compute_dqi_site_level_f64_def
    by (auto dest: dqi_frame_f64_rows)
  with assms(2) obtain r0 where "r = dqi_cells_f64 r0" by auto
  then show ?thesis using dqi_cells_f64_balance [of r0] by simp
qed

lemma fl_small:
  "fl 0 = 0" "fl 100 = 100" "fl 10000 = 10000"
  by (simp_all add: fl_def ilog2_fuel_unfold rint_def Let_def)

lemma pct_f64_zero:
  "c \<in> set signal_columns \<Longrightarrow> cells r c \<le> threshold c \<Longrightarrow> pct_f64 c r = 0"
  by (simp add: pct_f64_def normalize_f64_def)

text \<open>A record with every signal at or below its threshold scores exactly 100.0 in double
  precision as well: no operation on the way rounds.\<close>

lemma dqi_cells_f64_clean:
  assumes "\<forall>c \<in> set signal_columns. cells r c \<le> threshold c"
  shows "cells (dqi_cells_f64 r) ''dqi_score'' = 100"
proof -
  have z: "pct_f64 ''missing_pages_pct'' r = 0" "pct_f64 ''missing_visits_pct'' r = 0"
    "pct_f64 ''unresolved_edrr_pct'' r = 0" "pct_f64 ''uncoded_terms_pct'' r = 0"
    "pct_f64 ''pending_sae_pct'' r = 0"
    using assms by (simp_all add: pct_f64_zero signal_columns_def)
  have w: "weighted_f64 0 0 0 0 0 = 0" by (simp add: weighted_f64_num fl_small)
  have "rint 10000 = 10000" using rint_of_int [of 10000] by simp
  then have "score_f64 0 0 0 0 0 = 100"
    by (simp add: score_f64_def round2_f64_def w fl_small)
  then show ?thesis by (simp add: dqi_cells_f64_read z)
qed

section \<open>A record on six rounding ties\<close>

lemma in_pages: "fl (8728725 / 1000000) = 2456917666088721 / 281474976710656"
  by (simp add: fl_def ilog2_fuel_unfold rint_def Let_def)

lemma sub_pages: "fl (2456917666088721 / 281474976710656 - 5) = 1049542782535441 / 281474976710656"
  by (simp add: fl_def ilog2_fuel_unfold rint_def Let_def)

lemma div_pages: "fl (1049542782535441 / 281474976710656 / 5) = 3358536904113411 / 4503599627370496"
  by (simp add: fl_def ilog2_fuel_unfold rint_def Let_def)

lemma mul_pages: "fl (3358536904113411 / 4503599627370496 * 100) = 5247713912677205 / 70368744177664"
  by (simp add: fl_def ilog2_fuel_unfold rint_def Let_def)

lemma norm_pages: "normalize_f64 (2456917666088721 / 281474976710656) 5 = 5247713912677205 / 70368744177664"
  unfolding normalize_f64_def Let_def by (simp only: sub_pages div_pages mul_pages) simp

lemma in_visits: "fl (140887 / 10000) = 3965616504383419 / 281474976710656"
  by (simp add: fl_def ilog2_fuel_unfold rint_def Let_def)

lemma sub_visits: "fl (3965616504383419 / 281474976710656 - 10) = 1150866737276859 / 281474976710656"
  by (simp add: fl_def ilog2_fuel_unfold rint_def Let_def)

lemma div_visits: "fl (1150866737276859 / 281474976710656 / 10) = 3682773559285949 / 9007199254740992"
  by (simp add: fl_def ilog2_fuel_unfold rint_def Let_def)

lemma mul_visits: "fl (3682773559285949 / 9007199254740992 * 100) = 5754333686384295 / 140737488355328"
  by (simp add: fl_def ilog2_fuel_unfold rint_def Let_def)

lemma norm_visits: "normalize_f64 (3965616504383419 / 281474976710656) 10 = 5754333686384295 / 140737488355328"
  unfolding normalize_f64_def Let_def by (simp only: sub_visits div_visits mul_visits) simp

lemma in_edrr: "fl (848664 / 100000) = 4777553592703443 / 562949953421312"
  by (simp add: fl_def ilog2_fuel_unfold rint_def Let_def)

lemma sub_edrr: "fl (4777553592703443 / 562949953421312 - 8) = 273953965332947 / 562949953421312"
  by (simp add: fl_def ilog2_fuel_unfold rint_def Let_def)

lemma div_edrr: "fl (273953965332947 / 562949953421312 / 8) = 273953965332947 / 4503599627370496"
  by (simp add: fl_def ilog2_fuel_unfold rint_def Let_def)

lemma mul_edrr: "fl (273953965332947 / 4503599627370496 * 100) = 6848849133323675 / 1125899906842624"
  by (simp add: fl_def ilog2_fuel_unfold rint_def Let_def)

lemma norm_edrr: "normalize_f64 (4777553592703443 / 562949953421312) 8 = 6848849133323675 / 1125899906842624"
  unfolding normalize_f64_def Let_def by (simp only: sub_edrr div_edrr mul_edrr) simp

lemma in_codes: "fl (117364625 / 10000000) = 6607041017705975 / 562949953421312"
  by (simp add: fl_def ilog2_fuel_unfold rint_def Let_def)

lemma sub_codes: "fl (6607041017705975 / 562949953421312 - 7) = 2666391343756791 / 562949953421312"
  by (simp add: fl_def ilog2_fuel_unfold rint_def Let_def)

lemma div_codes: "fl (2666391343756791 / 562949953421312 / 7) = 380913049108113 / 562949953421312"
  by (simp add: fl_def ilog2_fuel_unfold rint_def Let_def)

lemma mul_codes: "fl (380913049108113 / 562949953421312 * 100) = 1190353278462853 / 17592186044416"
  by (simp add: fl_def ilog2_fuel_unfold rint_def Let_def)

lemma norm_codes: "normalize_f64 (6607041017705975 / 562949953421312) 7 = 1190353278462853 / 17592186044416"
  unfolding normalize_f64_def Let_def by (simp only: sub_codes div_codes mul_codes) simp

lemma in_sae: "fl (602333 / 100000) = 3390833342941191 / 562949953421312"
  by (simp add: fl_def ilog2_fuel_unfold rint_def Let_def)

lemma sub_sae: "fl (3390833342941191 / 562949953421312 - 5) = 576083575834631 / 562949953421312"
  by (simp add: fl_def ilog2_fuel_unfold rint_def Let_def)

lemma div_sae: "fl (576083575834631 / 562949953421312 / 5) = 7373869770683277 / 36028797018963968"
  by (simp add: fl_def ilog2_fuel_unfold rint_def Let_def)

lemma mul_sae: "fl (7373869770683277 / 36028797018963968 * 100) = 2880417879173155 / 140737488355328"
  by (simp add: fl_def ilog2_fuel_unfold rint_def Let_def)

lemma norm_sae: "normalize_f64 (3390833342941191 / 562949953421312) 5 = 2880417879173155 / 140737488355328"
  unfolding normalize_f64_def Let_def by (simp only: sub_sae div_sae mul_sae) simp

lemma coef_10: "fl (10 / 77) = 2339532273958699 / 18014398509481984"
  by (simp add: fl_def ilog2_fuel_unfold rint_def Let_def)

lemma coef_12: "fl (12 / 77) = 2807438728750439 / 18014398509481984"
  by (simp add: fl_def ilog2_fuel_unfold rint_def Let_def)

lemma coef_15: "fl (15 / 77) = 3509298410938049 / 18014398509481984"
  by (simp add: fl_def ilog2_fuel_unfold rint_def Let_def)

lemma coef_25: "fl (25 / 77) = 1462207671224187 / 4503599627370496"
  by (simp add: fl_def ilog2_fuel_unfold rint_def Let_def)

lemma pv_pages: "fl (5247713912677205 / 70368744177664 * (2339532273958699 / 18014398509481984)) = 5452170298885407 / 562949953421312"
  by (simp add: fl_def ilog2_fuel_unfold rint_def Let_def)

lemma px_pages: "fl (5452170298885407 / 562949953421312 * 100) = 1937 / 2"
  by (simp add: fl_def ilog2_fuel_unfold rint_def Let_def)

lemma pr_pages: "rint (1937 / 2) = 968"
  by (simp add: rint_def Let_def)

lemma po_pages: "fl (968 / 100) = 1362338887279575 / 140737488355328"
  by (simp add: fl_def ilog2_fuel_unfold rint_def Let_def)

lemma pen_pages: "pen_f64 (5247713912677205 / 70368744177664) 10 = 1362338887279575 / 140737488355328"
  unfolding pen_f64_num round2_f64_def by (simp only: coef_10 pv_pages px_pages pr_pages of_int_numeral po_pages)

lemma pv_visits: "fl (5754333686384295 / 140737488355328 * (3509298410938049 / 18014398509481984)) = 8967792758001499 / 1125899906842624"
  by (simp add: fl_def ilog2_fuel_unfold rint_def Let_def)

lemma px_visits: "fl (8967792758001499 / 1125899906842624 * 100) = 7006088092188671 / 8796093022208"
  by (simp add: fl_def ilog2_fuel_unfold rint_def Let_def)

lemma pr_visits: "rint (7006088092188671 / 8796093022208) = 796"
  by (simp add: rint_def Let_def)

lemma po_visits: "fl (796 / 100) = 8962163258467287 / 1125899906842624"
  by (simp add: fl_def ilog2_fuel_unfold rint_def Let_def)

lemma pen_visits: "pen_f64 (5754333686384295 / 140737488355328) 15 = 8962163258467287 / 1125899906842624"
  unfolding pen_f64_num round2_f64_def by (simp only: coef_15 pv_visits px_visits pr_visits of_int_numeral po_visits)

lemma pv_edrr: "fl (6848849133323675 / 1125899906842624 * (3509298410938049 / 18014398509481984)) = 5336765558434033 / 4503599627370496"
  by (simp add: fl_def ilog2_fuel_unfold rint_def Let_def)

lemma px_edrr: "fl (5336765558434033 / 4503599627370496 * 100) = 8338696185053177 / 70368744177664"
  by (simp add: fl_def ilog2_fuel_unfold rint_def Let_def)

lemma pr_edrr: "rint (8338696185053177 / 70368744177664) = 118"
  by (simp add: rint_def Let_def)

lemma po_edrr: "fl (118 / 100) = 5314247560297185 / 4503599627370496"
  by (simp add: fl_def ilog2_fuel_unfold rint_def Let_def)

lemma pen_edrr: "pen_f64 (6848849133323675 / 1125899906842624) 15 = 5314247560297185 / 4503599627370496"
  unfolding pen_f64_num round2_f64_def by (simp only: coef_15 pv_edrr px_edrr pr_edrr of_int_numeral po_edrr)

lemma pv_codes: "fl (1190353278462853 / 17592186044416 * (2807438728750439 / 18014398509481984)) = 2968153629413867 / 281474976710656"
  by (simp add: fl_def ilog2_fuel_unfold rint_def Let_def)

lemma px_codes: "fl (2968153629413867 / 281474976710656 * 100) = 4637740045959167 / 4398046511104"
  by (simp add: fl_def ilog2_fuel_unfold rint_def Let_def)

lemma pr_codes: "rint (4637740045959167 / 4398046511104) = 1054"
  by (simp add: rint_def Let_def)

lemma po_codes: "fl (1054 / 100) = 1483373127265157 / 140737488355328"
  by (simp add: fl_def ilog2_fuel_unfold rint_def Let_def)

lemma pen_codes: "pen_f64 (1190353278462853 / 17592186044416) 12 = 1483373127265157 / 140737488355328"
  unfolding pen_f64_num round2_f64_def by (simp only: coef_12 pv_codes px_codes pr_codes of_int_numeral po_codes)

lemma pv_sae: "fl (2880417879173155 / 140737488355328 * (1462207671224187 / 4503599627370496)) = 3740802440484617 / 562949953421312"
  by (simp add: fl_def ilog2_fuel_unfold rint_def Let_def)

lemma px_sae: "fl (3740802440484617 / 562949953421312 * 100) = 2922501906628607 / 4398046511104"
  by (simp add: fl_def ilog2_fuel_unfold rint_def Let_def)

lemma pr_sae: "rint (2922501906628607 / 4398046511104) = 664"
  by (simp add: rint_def Let_def)

lemma po_sae: "fl (664 / 100) = 7475975381435023 / 1125899906842624"
  by (simp add: fl_def ilog2_fuel_unfold rint_def Let_def)

lemma pen_sae: "pen_f64 (2880417879173155 / 140737488355328) 25 = 7475975381435023 / 1125899906842624"
  unfolding pen_f64_num round2_f64_def by (simp only: coef_25 pv_sae px_sae pr_sae of_int_numeral po_sae)

lemma a_pages: "fl (5247713912677205 / 70368744177664 * 10) = 3279821195423253 / 4398046511104"
  by (simp add: fl_def ilog2_fuel_unfold rint_def Let_def)

lemma a_visits: "fl (5754333686384295 / 140737488355328 * 15) = 5394687830985277 / 8796093022208"
  by (simp add: fl_def ilog2_fuel_unfold rint_def Let_def)

lemma a_edrr: "fl (6848849133323675 / 1125899906842624 * 15) = 6420796062490945 / 70368744177664"
  by (simp add: fl_def ilog2_fuel_unfold rint_def Let_def)

lemma a_codes: "fl (1190353278462853 / 17592186044416 * 12) = 3571059835388559 / 4398046511104"
  by (simp add: fl_def ilog2_fuel_unfold rint_def Let_def)

lemma a_sae: "fl (2880417879173155 / 140737488355328 * 25) = 9001305872416109 / 17592186044416"
  by (simp add: fl_def ilog2_fuel_unfold rint_def Let_def)

lemma sum_2: "fl (3279821195423253 / 4398046511104 + 5394687830985277 / 8796093022208) = 1494291277728973 / 1099511627776"
  by (simp add: fl_def ilog2_fuel_unfold rint_def Let_def)

lemma sum_3: "fl (1494291277728973 / 1099511627776 + 6420796062490945 / 70368744177664) = 797308108102697 / 549755813888"
  by (simp add: fl_def ilog2_fuel_unfold rint_def Let_def)

lemma sum_4: "fl (797308108102697 / 549755813888 + 3571059835388559 / 4398046511104) = 1243690587526267 / 549755813888"
  by (simp add: fl_def ilog2_fuel_unfold rint_def Let_def)

lemma sum_5: "fl (1243690587526267 / 549755813888 + 9001305872416109 / 17592186044416) = 3049962792078541 / 1099511627776"
  by (simp add: fl_def ilog2_fuel_unfold rint_def Let_def)

lemma wp_div: "fl (3049962792078541 / 1099511627776 / 77) = 1267517004500173 / 35184372088832"
  by (simp add: fl_def ilog2_fuel_unfold rint_def Let_def)

lemma weighted_tie: "weighted_f64 (5247713912677205 / 70368744177664) (5754333686384295 / 140737488355328) (6848849133323675 / 1125899906842624) (1190353278462853 / 17592186044416) (2880417879173155 / 140737488355328) = 1267517004500173 / 35184372088832"
  unfolding weighted_f64_num by (simp only: a_pages a_visits a_edrr a_codes a_sae sum_2 sum_3 sum_4 sum_5 wp_div)

lemma q_sub: "fl (100 - 1267517004500173 / 35184372088832) = 2250920204383027 / 35184372088832"
  by (simp add: fl_def ilog2_fuel_unfold rint_def Let_def)

lemma q_mul: "fl (2250920204383027 / 35184372088832 * 100) = 7034125638696959 / 1099511627776"
  by (simp add: fl_def ilog2_fuel_unfold rint_def Let_def)

lemma q_rint: "rint (7034125638696959 / 1099511627776) = 6397"
  by (simp add: rint_def Let_def)

lemma q_out: "fl (6397 / 100) = 2250744282522583 / 35184372088832"
  by (simp add: fl_def ilog2_fuel_unfold rint_def Let_def)

lemma score_tie: "score_f64 (5247713912677205 / 70368744177664) (5754333686384295 / 140737488355328) (6848849133323675 / 1125899906842624) (1190353278462853 / 17592186044416) (2880417879173155 / 140737488355328) = 2250744282522583 / 35184372088832"
  unfolding score_f64_def round2_f64_def by (simp only: weighted_tie q_sub q_mul q_rint of_int_numeral q_out)

lemma tie_cells:
  "cells tie_row ''missing_pages_pct'' = tie_pages"
  "cells tie_row ''missing_visits_pct'' = tie_visits"
  "cells tie_row ''unresolved_edrr_pct'' = tie_edrr"
  "cells tie_row ''uncoded_terms_pct'' = tie_codes"
  "cells tie_row ''pending_sae_pct'' = tie_sae"
  by (simp_all add: tie_row_def)

lemma tie_frame: "compute_dqi_study_level_f64 tie_signals = Inr tie_dqi_frame"
  by (simp add: compute_dqi_study_level_f64_def dqi_frame_f64_def tie_signals_def
      signal_columns_def add_columns_def tie_dqi_frame_def)

lemma tie_member: "dqi_cells_f64 tie_row \<in> set (rows tie_dqi_frame)"
  by (simp add: tie_dqi_frame_def)

lemma tie_values:
  "tie_pages = 2456917666088721 / 281474976710656"
  "tie_visits = 3965616504383419 / 281474976710656"
  "tie_edrr = 4777553592703443 / 562949953421312"
  "tie_codes = 6607041017705975 / 562949953421312"
  "tie_sae = 3390833342941191 / 562949953421312"
  unfolding tie_pages_def tie_visits_def tie_edrr_def tie_codes_def tie_sae_def
  by (rule in_pages in_visits in_edrr in_codes in_sae)+

lemma tie_pct:
  "pct_f64 ''missing_pages_pct'' tie_row = 5247713912677205 / 70368744177664"
  "pct_f64 ''missing_visits_pct'' tie_row = 5754333686384295 / 140737488355328"
  "pct_f64 ''unresolved_edrr_pct'' tie_row = 6848849133323675 / 1125899906842624"
  "pct_f64 ''uncoded_terms_pct'' tie_row = 1190353278462853 / 17592186044416"
  "pct_f64 ''pending_sae_pct'' tie_row = 2880417879173155 / 140737488355328"
  by (simp_all only: pct_f64_def tie_cells threshold_simps tie_values
      norm_pages norm_visits norm_edrr norm_codes norm_sae)

lemma tie_record:
  "cells (dqi_cells_f64 tie_row) ''dqi_score'' = 2250744282522583 / 35184372088832"
  "cells (dqi_cells_f64 tie_row) ''penalty_pages'' = 1362338887279575 / 140737488355328"
  "cells (dqi_cells_f64 tie_row) ''penalty_visits'' = 8962163258467287 / 1125899906842624"
  "cells (dqi_cells_f64 tie_row) ''penalty_edrr'' = 5314247560297185 / 4503599627370496"
  "cells (dqi_cells_f64 tie_row) ''penalty_codes'' = 1483373127265157 / 140737488355328"
  "cells (dqi_cells_f64 tie_row) ''penalty_sae'' = 7475975381435023 / 1125899906842624"
  by (simp_all only: dqi_cells_f64_read tie_pct score_tie
      pen_pages pen_visits pen_edrr pen_codes pen_sae)

text \<open>C4 (as stated) fails: the study-level aggregator turns the one record of
  \<open>tie_signals\<close> into a record whose score 63.97 and penalties 9.68, 7.96, 1.18, 10.54 and
  6.64 add up to 99.97, more than 0.02 away from 100.\<close>

theorem dqi_balance_counterexample:
  "compute_dqi_study_level_f64 tie_signals = Inr tie_dqi_frame
   \<and> dqi_cells_f64 tie_row \<in> set (rows tie_dqi_frame)
   \<and> \<not> \<bar>cells (dqi_cells_f64 tie_row) ''dqi_score''
        + (cells (dqi_cells_f64 tie_row) ''penalty_pages''
           + cells (dqi_cells_f64 tie_row) ''penalty_visits''
           + cells (dqi_cells_f64 tie_row) ''penalty_edrr''
           + cells (dqi_cells_f64 tie_row) ''penalty_codes''
           + cells (dqi_cells_f64 tie_row) ''penalty_sae'') - 100\<bar> \<le> 2 / 100"
  unfolding tie_record using tie_frame tie_member by simp

theorem dqi_balance_f64_witness:
  "compute_dqi_study_level_f64 tie_signals = Inr tie_dqi_frame
   \<and> dqi_cells_f64 tie_row \<in> set (rows tie_dqi_frame)
   \<and> \<bar>cells (dqi_cells_f64 tie_row) ''dqi_score''
        + (cells (dqi_cells_f64 tie_row) ''penalty_pages''
           + cells (dqi_cells_f64 tie_row) ''penalty_visits''
           + cells (dqi_cells_f64 tie_row) ''penalty_edrr''
           + cells (dqi_cells_f64 tie_row) ''penalty_codes''
           + cells (dqi_cells_f64 tie_row) ''penalty_sae'') - 100\<bar> \<le> 3 / 100 + 1 / 10000000000"
  using dqi_balance_f64 [OF disjI1 [OF tie_frame] tie_member] tie_frame tie_member by simp

lemma tie_exact_pct:
  "pct_of ''missing_pages_pct'' tie_row_exact = 74574500 / 1000000"
  "pct_of ''missing_visits_pct'' tie_row_exact = 40887000 / 1000000"
  "pct_of ''unresolved_edrr_pct'' tie_row_exact = 6083000 / 1000000"
  "pct_of ''uncoded_terms_pct'' tie_row_exact = 67663750 / 1000000"
  "pct_of ''pending_sae_pct'' tie_row_exact = 20466600 / 1000000"
  by (simp_all add: pct_of_def threshold_simps tie_row_exact_def normalize_signal_vs_threshold_def)

text \<open>In exact arithmetic the same decimals give the ties themselves: the five penalties
  round down to the even hundredth, the score 63.975 rounds up to 63.98, and the total is
  99.98.\<close>

lemma tie_exact_values:
  "cells (dqi_cells tie_row_exact) ''dqi_score'' = 6398 / 100"
  "cells (dqi_cells tie_row_exact) ''penalty_pages'' = 968 / 100"
  "cells (dqi_cells tie_row_exact) ''penalty_visits'' = 796 / 100"
  "cells (dqi_cells tie_row_exact) ''penalty_edrr'' = 118 / 100"
  "cells (dqi_cells tie_row_exact) ''penalty_codes'' = 1054 / 100"
  "cells (dqi_cells tie_row_exact) ''penalty_sae'' = 664 / 100"
  by (simp_all add: dqi_cells_read weighted_penalty_def tie_exact_pct total_weight_def W_pages_def
      W_visits_def W_edrr_def W_codes_def W_sae_def round2_def rint_def Let_def)

section \<open>The driver attributor\<close>

lemma labels_penalties: "map fst (penalties row) = declared_order"
  by (simp add: penalties_def signal_cols_def declared_order_def penalty_cols_def pct_cols_def)

lemma distinct_declared: "distinct declared_order"
  by (simp add: declared_order_def penalty_cols_def)

lemma penalty_value_entry:
  assumes "p \<in> set (penalties row)"
  shows "penalty_value row (fst p) = snd p"
proof -
  have "distinct (map fst (penalties row))"
    by (simp add: labels_penalties distinct_declared)
  then have "map_of (penalties row) (fst p) = Some (snd p)"
    using assms by (cases p) simp
  then show ?thesis by (simp add: penalty_value_def)
qed

lemma positions_increase:
  "sorted_wrt (\<lambda>a b. position (fst a) < position (fst b)) (penalties row)"
proof -
  have "sorted_wrt (\<lambda>a b. position a < position b) declared_order"
    by (simp add: declared_order_def penalty_cols_def position_def)
  then have "sorted_wrt (\<lambda>a b. position a < position b) (map fst (penalties row))"
    by (simp only: labels_penalties)
  then show ?thesis by (simp add: sorted_wrt_map)
qed

lemma insort_key_tie_order:
  fixes f :: "'a \<Rightarrow> real" and g :: "'a \<Rightarrow> nat"
  assumes "sorted_wrt (\<lambda>a b. f a < f b \<or> (f a = f b \<and> g a < g b)) ys"
    and "\<forall>y \<in> set ys. g x < g y"
  shows "sorted_wrt (\<lambda>a b. f a < f b \<or> (f a = f b \<and> g a < g b)) (insort_key f x ys)"
  using assms
proof (induction ys)
  case Nil
  then show ?case by simp
next
  case (Cons y ys)
  show ?case
  proof (cases "f x \<le> f y")
    case True
    have "\<forall>z \<in> set ys. f y \<le> f z" using Cons.prems(1) by auto
    with True Cons.prems show ?thesis by (auto simp: less_eq_real_def)
  next
    case False
    have "sorted_wrt (\<lambda>a b. f a < f b \<or> (f a = f b \<and> g a < g b)) (insort_key f x ys)"
      using Cons by simp
    with False Cons.prems show ?thesis by (auto simp: set_insort_key)
  qed
qed

lemma sort_key_tie_order:
  fixes f :: "'a \<Rightarrow> real" and g :: "'a \<Rightarrow> nat"
  assumes "sorted_wrt (\<lambda>a b. g a < g b) xs"
  shows "sorted_wrt (\<lambda>a b. f a < f b \<or> (f a = f b \<and> g a < g b)) (sort_key f xs)"
  using assms
proof (induction xs)
  case Nil
  then show ?case by simp
next
  case (Cons x xs)
  have "sorted_wrt (\<lambda>a b. f a < f b \<or> (f a = f b \<and> g a < g b)) (sort_key f xs)"
    using Cons by simp
  moreover have "\<forall>y \<in> set (sort_key f xs). g x < g y" using Cons.prems by simp
  ultimately show ?case by (simp add: insort_key_tie_order)
qed

lemma sorted_penalties_order:
  "sorted_wrt (\<lambda>a b. driver_before row (fst a) (fst b)) (sorted_reverse snd (penalties row))"
proof -
  let ?S = "sorted_reverse snd (penalties row)"
  have "sorted_wrt (\<lambda>a b. - snd a < - snd b
           \<or> (- snd a = - snd b \<and> position (fst a) < position (fst b))) ?S"
    unfolding sorted_reverse_def by (rule sort_key_tie_order [OF positions_increase])
  moreover have "set ?S = set (penalties row)" by (simp add: sorted_reverse_def)
  ultimately show ?thesis
    by (rule_tac sorted_wrt_mono_rel [rotated]) (auto simp: driver_before_def penalty_value_entry)
qed

lemma slice_to_sorted_wrt: "sorted_wrt R xs \<Longrightarrow> sorted_wrt R (slice_to n xs)"
  by (simp add: slice_to_def sorted_wrt_take)

lemma set_slice_to: "set (slice_to n xs) \<subseteq> set xs"
  by (auto simp: slice_to_def dest: in_set_takeD)

lemma drivers_from_penalties:
  assumes "l \<in> set (identify_top_penalty_drivers row n)"
  shows "\<exists>v. (l, v) \<in> set (penalties row) \<and> 0 < v"
proof -
  from assms obtain p where "p \<in> set (slice_to n (sorted_reverse snd (penalties row)))" "0 < snd p" "l = fst p"
    by (auto simp: identify_top_penalty_drivers_def Let_def)
  moreover have "set (slice_to n (sorted_reverse snd (penalties row))) \<subseteq> set (penalties row)"
    using set_slice_to [of n "sorted_reverse snd (penalties row)"] by (simp add: sorted_reverse_def)
  ultimately have "p \<in> set (penalties row)" by blast
  then have "(l, snd p) \<in> set (penalties row)" using \<open>l = fst p\<close> by simp
  with \<open>0 < snd p\<close> show ?thesis by blast
qed

lemma driver_example_result:
  "identify_top_penalty_drivers driver_example 2 = [''Missing Visits'', ''EDRR Queries'']"
  by (simp add: identify_top_penalty_drivers_def penalties_def signal_cols_def penalty_cols_def
      driver_example_def sorted_reverse_def slice_to_def)

text \<open>C6: for every record and every \<open>top_n\<close>, the driver attributor returns at most
  \<open>top_n\<close> labels (for a count \<open>top_n \<ge> 0\<close>), returns no label whose penalty value
  is zero or negative, and orders the labels by descending penalty value, ties in the declared
  signal order.\<close>

theorem top_drivers_contract:
  "(0 \<le> n \<longrightarrow> int (length (identify_top_penalty_drivers row n)) \<le> n)
   \<and> (\<forall>l \<in> set (identify_top_penalty_drivers row n). 0 < penalty_value row l)
   \<and> sorted_wrt (driver_before row) (identify_top_penalty_drivers row n)"
proof (intro conjI impI ballI)
  assume "0 \<le> n"
  have "length (identify_top_penalty_drivers row n)
          \<le> length (slice_to n (sorted_reverse snd (penalties row)))"
    by (simp add: identify_top_penalty_drivers_def Let_def)
  also have "\<dots> \<le> nat n" using \<open>0 \<le> n\<close> by (simp add: slice_to_def)
  finally show "int (length (identify_top_penalty_drivers row n)) \<le> n" using \<open>0 \<le> n\<close> by simp
next
  fix l assume "l \<in> set (identify_top_penalty_drivers row n)"
  then obtain v where "(l, v) \<in> set (penalties row)" "0 < v"
    using drivers_from_penalties by blast
  then show "0 < penalty_value row l" using penalty_value_entry [of "(l, v)" row] by simp
next
  have "sorted_wrt (\<lambda>a b. driver_before row (fst a) (fst b))
          (filter (\<lambda>p. 0 < snd p) (slice_to n (sorted_reverse snd (penalties row))))"
    by (intro sorted_wrt_filter slice_to_sorted_wrt sorted_penalties_order)
  then show "sorted_wrt (driver_before row) (identify_top_penalty_drivers row n)"
    by (simp add: identify_top_penalty_drivers_def Let_def sorted_wrt_map)
qed

theorem top_drivers_contract_witness:
  "(0::int) \<le> 2
   \<and> identify_top_penalty_drivers driver_example 2 = [''Missing Visits'', ''EDRR Queries'']
   \<and> int (length (identify_top_penalty_drivers driver_example 2)) \<le> 2
   \<and> 0 < penalty_value driver_example ''Missing Visits''
   \<and> 0 < penalty_value driver_example ''EDRR Queries''
   \<and> driver_before driver_example ''Missing Visits'' ''EDRR Queries''"
  using top_drivers_contract [of 2 driver_example] by (simp add: driver_example_result)

lemma penalties_absent:
  assumes "(col, label) \<in> set (signal_cols row)" and "row col = None"
  shows "(label, 0) \<in> set (penalties row)"
  using assms unfolding penalties_def by force

lemma signal_cols_expected:
  "set (map fst (signal_cols row)) \<subseteq> set (map fst penalty_cols @ map fst pct_cols)"
  by (auto simp: signal_cols_def)

lemma partial_example_result:
  "identify_top_penalty_drivers partial_example 2 = [''SAE Reviews'', ''CRF Pages'']"
  by (simp add: identify_top_penalty_drivers_def penalties_def signal_cols_def penalty_cols_def
      partial_example_def sorted_reverse_def slice_to_def)

text \<open>C10: the driver attributor is total over partial records.  A signal whose column, in
  the mapping chosen for the row, is absent from the row has penalty 0 and is never returned;
  a row with none of the ten expected columns yields the empty list.\<close>

theorem absent_columns_never_drive:
  "(\<forall>(col, label) \<in> set (signal_cols row).
      row col = None \<longrightarrow> penalty_value row label = 0
        \<and> label \<notin> set (identify_top_penalty_drivers row n))
   \<and> ((\<forall>c \<in> set (map fst penalty_cols @ map fst pct_cols). row c = None)
        \<longrightarrow> identify_top_penalty_drivers row n = [])"
proof (intro conjI impI)
  show "\<forall>(col, label) \<in> set (signal_cols row).
      row col = None \<longrightarrow> penalty_value row label = 0
        \<and> label \<notin> set (identify_top_penalty_drivers row n)"
  proof (clarify, rule conjI)
    fix col label
    assume m: "(col, label) \<in> set (signal_cols row)" and a: "row col = None"
    from penalties_absent [OF m a] show z: "penalty_value row label = 0"
      using penalty_value_entry [of "(label, 0)" row] by simp
    show "label \<notin> set (identify_top_penalty_drivers row n)"
    proof
      assume "label \<in> set (identify_top_penalty_drivers row n)"
      then obtain v where "(label, v) \<in> set (penalties row)" "0 < v"
        using drivers_from_penalties by blast
      then have "0 < penalty_value row label"
        using penalty_value_entry [of "(label, v)" row] by simp
      with z show False by simp
    qed
  qed
next
  assume none: "\<forall>c \<in> set (map fst penalty_cols @ map fst pct_cols). row c = None"
  show "identify_top_penalty_drivers row n = []"
  proof (rule ccontr)
    assume "identify_top_penalty_drivers row n \<noteq> []"
    then obtain l where "l \<in> set (identify_top_penalty_drivers row n)"
      by (cases "identify_top_penalty_drivers row n") auto
    then obtain v where v: "(l, v) \<in> set (penalties row)" "0 < v"
      using drivers_from_penalties by blast
    then obtain col where c: "(col, l) \<in> set (signal_cols row)"
      and "v = (case row col of Some v \<Rightarrow> v | None \<Rightarrow> 0)"
      by (auto simp: penalties_def)
    moreover have "row col = None"
      using none c signal_cols_expected [of row] by force
    ultimately show False using v by simp
  qed
qed

theorem absent_columns_never_drive_witness:
  "(''penalty_visits'', ''Missing Visits'') \<in> set (signal_cols partial_example)
   \<and> partial_example ''penalty_visits'' = None
   \<and> identify_top_penalty_drivers partial_example 2 = [''SAE Reviews'', ''CRF Pages'']
   \<and> penalty_value partial_example ''Missing Visits'' = 0
   \<and> ''Missing Visits'' \<notin> set (identify_top_penalty_drivers partial_example 2)
   \<and> identify_top_penalty_drivers Map.empty 2 = []"
proof -
  have m: "(''penalty_visits'', ''Missing Visits'') \<in> set (signal_cols partial_example)"
    by (simp add: signal_cols_def partial_example_def penalty_cols_def)
  have a: "partial_example ''penalty_visits'' = None"
    by (simp add: partial_example_def)
  have e: "\<forall>c \<in> set (map fst penalty_cols @ map fst pct_cols). Map.empty c = (None :: real option)"
    by simp
  from absent_columns_never_drive [of partial_example 2] m a
  have "penalty_value partial_example ''Missing Visits'' = 0
        \<and> ''Missing Visits'' \<notin> set (identify_top_penalty_drivers partial_example 2)"
    by blast
  moreover from absent_columns_never_drive [of Map.empty 2] e
  have "identify_top_penalty_drivers Map.empty 2 = []" by blast
  ultimately show ?thesis using m a partial_example_result by blast
qed

section \<open>The risk categorizer\<close>

lemma quantile_interp:
  "xs \<noteq> [] \<Longrightarrow> quantile xs q = Some (interp (sort xs) (q * real (length xs - 1)))"
  by (simp add: quantile_def interp_def Let_def)

lemma interp_bounds:
  assumes "sorted s" and "0 \<le> p" and "p \<le> real (length s - 1)" and "s \<noteq> []"
  shows "s ! nat \<lfloor>p\<rfloor> \<le> interp s p"
    and "interp s p \<le> s ! min (nat \<lfloor>p\<rfloor> + 1) (length s - 1)"
proof -
  let ?lo = "nat \<lfloor>p\<rfloor>" and ?hi = "min (nat \<lfloor>p\<rfloor> + 1) (length s - 1)"
  have lo: "real ?lo \<le> p" "p < real ?lo + 1" using assms(2) by linarith+
  have "?lo \<le> length s - 1" using lo assms(3) by linarith
  then have "?lo \<le> ?hi" "?hi < length s" using assms(4) by (cases s; simp)+
  then have d: "s ! ?lo \<le> s ! ?hi" using assms(1) by (simp add: sorted_nth_mono)
  have f: "0 \<le> p - real ?lo" "p - real ?lo \<le> 1" using lo by linarith+
  show "s ! ?lo \<le> interp s p" unfolding interp_def using d f by simp
  have "(p - real ?lo) * (s ! ?hi - s ! ?lo) \<le> 1 * (s ! ?hi - s ! ?lo)"
    using d f by (intro mult_right_mono) auto
  then show "interp s p \<le> s ! ?hi" unfolding interp_def by simp
qed

lemma interp_mono:
  assumes "sorted s" and "0 \<le> p" and "p \<le> p'" and "p' \<le> real (length s - 1)" and "s \<noteq> []"
  shows "interp s p \<le> interp s p'"
proof (cases "nat \<lfloor>p\<rfloor> = nat \<lfloor>p'\<rfloor>")
  case True
  let ?lo = "nat \<lfloor>p\<rfloor>" and ?hi = "min (nat \<lfloor>p\<rfloor> + 1) (length s - 1)"
  have lo: "real ?lo \<le> p" using assms(2) by linarith
  have "?lo \<le> length s - 1" using lo assms(3,4) by linarith
  then have "?lo \<le> ?hi" "?hi < length s" using assms(5) by (cases s; simp)+
  then have d: "s ! ?lo \<le> s ! ?hi" using assms(1) by (simp add: sorted_nth_mono)
  have "(p - real ?lo) * (s ! ?hi - s ! ?lo) \<le> (p' - real ?lo) * (s ! ?hi - s ! ?lo)"
    using d assms(3) by (intro mult_right_mono) auto
  then show ?thesis unfolding interp_def True [symmetric] by simp
next
  case False
  have "nat \<lfloor>p\<rfloor> \<le> nat \<lfloor>p'\<rfloor>" using assms(3) by (simp add: floor_mono nat_mono)
  with False have lt: "nat \<lfloor>p\<rfloor> + 1 \<le> nat \<lfloor>p'\<rfloor>" by simp
  have "real (nat \<lfloor>p'\<rfloor>) \<le> p'" using assms(2,3) by linarith
  then have "nat \<lfloor>p'\<rfloor> \<le> length s - 1" using assms(4) by linarith
  then have lo': "nat \<lfloor>p'\<rfloor> < length s" using assms(5) by (cases s) auto
  have "interp s p \<le> s ! min (nat \<lfloor>p\<rfloor> + 1) (length s - 1)"
    using assms by (intro interp_bounds(2)) auto
  also have "\<dots> \<le> s ! nat \<lfloor>p'\<rfloor>"
    using lt lo' assms(1) by (intro sorted_nth_mono) auto
  also have "\<dots> \<le> interp s p'"
    using assms by (intro interp_bounds(1)) auto
  finally show ?thesis .
qed

lemma p75_le_p90:
  assumes "quantile xs (75 / 100) = Some p75" and "quantile xs (90 / 100) = Some p90"
  shows "p75 \<le> p90"
proof -
  have ne: "xs \<noteq> []" using assms(1) by (auto simp: quantile_def split: if_splits)
  have ne': "sort xs \<noteq> []"
  proof
    assume "sort xs = []"
    then have "length (sort xs) = 0" by simp
    then show False using ne by simp
  qed
  have "interp (sort xs) (75 / 100 * real (length xs - 1))
          \<le> interp (sort xs) (90 / 100 * real (length xs - 1))"
    using ne' by (intro interp_mono) auto
  then show ?thesis using assms ne by (simp add: quantile_interp)
qed

lemma five_scores:
  "categorize_risk_with_guardrails [10, 20, 30, 40, 50]
     = [''High Risk'', ''High Risk'', ''High Risk'', ''High Risk'', ''Low Risk'']"
  "quantile [10, 20, 30, 40, 50] (90 / 100) = Some 46"
  "quantile [10, 20, 30, 40, 50] (75 / 100) = Some 40"
  by (simp_all add: categorize_risk_with_guardrails_def quantile_def Let_def assign_risk_def le_nan_def)

text \<open>C2: the claim has a score in Medium Risk exactly when \<open>p90 < s \<le> p75\<close>, a
  branch it calls reachable for any non-degenerate batch.  In the code \<open>p90\<close> and \<open>p75\<close>
  are the upper quantiles \<open>quantile(0.90)\<close> and \<open>quantile(0.75)\<close>, so \<open>p75 \<le> p90\<close> for
  every batch and no score of any batch is ever put in Medium Risk.\<close>

theorem medium_risk_unreachable:
  "''Medium Risk'' \<notin> set (categorize_risk_with_guardrails dqi_scores_series)"
proof
  assume "''Medium Risk'' \<in> set (categorize_risk_with_guardrails dqi_scores_series)"
  then obtain s where s: "s \<in> set dqi_scores_series"
    and m: "assign_risk (quantile dqi_scores_series (90 / 100)) (quantile dqi_scores_series (75 / 100)) s
              = ''Medium Risk''"
    by (auto simp: categorize_risk_with_guardrails_def Let_def)
  from m have "\<not> le_nan s (quantile dqi_scores_series (90 / 100))"
    and "le_nan s (quantile dqi_scores_series (75 / 100))"
    by (auto simp: assign_risk_def split: if_splits)
  then obtain p75 where p75: "quantile dqi_scores_series (75 / 100) = Some p75" "s \<le> p75"
    by (auto simp: le_nan_def split: option.splits)
  from s have "dqi_scores_series \<noteq> []" by auto
  then obtain p90 where p90: "quantile dqi_scores_series (90 / 100) = Some p90"
    by (simp add: quantile_def Let_def)
  with \<open>\<not> le_nan s (quantile dqi_scores_series (90 / 100))\<close> have "p90 < s"
    by (simp add: le_nan_def)
  moreover have "p75 \<le> p90" using p75(1) p90 by (rule p75_le_p90)
  ultimately show False using p75(2) by simp
qed

lemma sort_upt_real: "sort (map real [a..<b]) = map real [a..<b]"
  by (intro sorted_sort_id) (simp add: sorted_map sorted_wrt_iff_nth_less)

lemma quantiles_1_to_100:
  "quantile (map real [1..<101]) (90 / 100) = Some (901 / 10)"
  "quantile (map real [1..<101]) (75 / 100) = Some (301 / 4)"
  by (simp_all add: quantile_def Let_def sort_upt_real)

lemma map_const_replicate: "(\<And>x. x \<in> set xs \<Longrightarrow> f x = c) \<Longrightarrow> map f xs = replicate (length xs) c"
  by (induction xs) auto

text \<open>C1: the claim has the 10 lowest of 100 distinct scores in High Risk and the next 15 in
  Medium Risk.  On the scores 1, 2, ..., 100 the code computes \<open>p90 = 90.1\<close> and
  \<open>p75 = 75.25\<close> and puts the 90 lowest scores in High Risk, none in Medium Risk and the
  10 highest in Low Risk.\<close>

theorem hundred_scores_ninety_high:
  "categorize_risk_with_guardrails (map real [1..<101])
     = replicate 90 ''High Risk'' @ replicate 10 ''Low Risk''"
proof -
  let ?f = "assign_risk (Some (901 / 10)) (Some (301 / 4))"
  have split: "map real [1..<101] = map real [1..<91] @ map real [91..<101]"
    using upt_add_eq_append [of 1 91 10] by (simp del: upt_Suc)
  have "?f x = ''High Risk''" if "x \<in> set (map real [1..<91])" for x
    using that by (auto simp: assign_risk_def le_nan_def)
  then have "map ?f (map real [1..<91]) = replicate (length (map real [1..<91])) ''High Risk''"
    by (rule map_const_replicate)
  moreover have "length (map real [1..<91]) = 90" by simp
  ultimately have hi: "map ?f (map real [1..<91]) = replicate 90 ''High Risk''"
    by (simp only:)
  have "?f x = ''Low Risk''" if "x \<in> set (map real [91..<101])" for x
    using that by (auto simp: assign_risk_def le_nan_def)
  then have "map ?f (map real [91..<101]) = replicate (length (map real [91..<101])) ''Low Risk''"
    by (rule map_const_replicate)
  moreover have "length (map real [91..<101]) = 10" by simp
  ultimately have lo: "map ?f (map real [91..<101]) = replicate 10 ''Low Risk''"
    by (simp only:)
  have "categorize_risk_with_guardrails (map real [1..<101]) = map ?f (map real [1..<101])"
    by (simp only: categorize_risk_with_guardrails_def Let_def quantiles_1_to_100)
  also have "\<dots> = map ?f (map real [1..<91]) @ map ?f (map real [91..<101])"
    by (simp only: split map_append)
  finally show ?thesis by (simp only: hi lo)
qed

section \<open>Ranking\<close>

lemma length_categorize [simp]:
  "length (categorize_risk_with_guardrails xs) = length xs"
  by (simp add: categorize_risk_with_guardrails_def Let_def)

lemma length_categorized [simp]: "length (categorized df) = length (rows df)"
  by (simp add: categorized_def Let_def)

lemma length_ranked_frame [simp]: "length (ranked_frame df) = length (rows df)"
  by (simp add: ranked_frame_def sort_values_def)

lemma map2_pairs:
  "length xs = length ys \<Longrightarrow> (\<And>x y. g (F x y) = (x, y)) \<Longrightarrow> map g (map2 F xs ys) = zip xs ys"
  by (induction xs ys rule: list_induct2) auto

lemma categorized_pairs:
  "map (\<lambda>a. (source_row a, risk a)) (categorized df)
     = zip (rows df) (categorize_risk_with_guardrails (map (\<lambda>r. cells r (dqi_column df)) (rows df)))"
  unfolding categorized_def Let_def
  by (rule map2_pairs) (simp_all add: source_row_def)

lemma ranked_frame_pairs:
  "mset (map (\<lambda>a. (source_row a, risk a)) (ranked_frame df))
     = mset (zip (rows df) (categorize_risk_with_guardrails (map (\<lambda>r. cells r (dqi_column df)) (rows df))))"
proof -
  have "mset (map (\<lambda>a. (source_row a, risk a)) (ranked_frame df))
          = mset (map (\<lambda>a. (source_row a, risk a)) (categorized df))"
    by (simp add: ranked_frame_def sort_values_def)
  then show ?thesis by (simp only: categorized_pairs)
qed

lemma ranked_frame_rows: "mset (map source_row (ranked_frame df)) = mset (rows df)"
proof -
  let ?z = "zip (rows df)
       (categorize_risk_with_guardrails (map (\<lambda>r. cells r (dqi_column df)) (rows df)))"
  have "mset (map source_row (ranked_frame df))
          = image_mset fst (mset (map (\<lambda>a. (source_row a, risk a)) (ranked_frame df)))"
    by (simp add: multiset.map_comp comp_def)
  also have "\<dots> = image_mset fst (mset ?z)"
    by (simp only: ranked_frame_pairs)
  also have "\<dots> = mset (map fst ?z)" by (simp only: mset_map)
  also have "map fst ?z = rows df" by (rule map_fst_zip) simp
  finally show ?thesis .
qed

lemma ranked_frame_sorted:
  "sorted (map (\<lambda>a. cells a (dqi_column df)) (ranked_frame df))"
  by (simp add: ranked_frame_def sort_values_def)

lemma source_row_fields [simp]:
  "study_id (source_row a) = study_id a" "site_id (source_row a) = site_id a"
  "cells (source_row a) = cells a"
  by (simp_all add: source_row_def)

lemma map2_project:
  "length ks = length rs \<Longrightarrow> (\<And>k r. f (G k r) = h r) \<Longrightarrow> map f (map2 G ks rs) = map h rs"
  by (induction ks rs rule: list_induct2) auto

lemma map2_index:
  "length ks = length rs \<Longrightarrow> (\<And>k r. f (G k r) = h k) \<Longrightarrow> map f (map2 G ks rs) = map h ks"
  by (induction ks rs rule: list_induct2) auto

lemma rank_studies_out:
  assumes "rank_studies df = Inr out"
  shows "map rank out = [1 ..< length (rows df) + 1]"
    and "map study_id out = map study_id (ranked_frame df)"
    and "map dqi_score out = map (\<lambda>a. cells a ''dqi_score'') (ranked_frame df)"
    and "map risk_level out = map risk (ranked_frame df)"
proof -
  from assms have out: "out = map2 (\<lambda>k r.
                     \<lparr>study_id = study_id r, site_id = site_id r,
                      dqi_score = cells r ''dqi_score'', risk_level = risk r,
                      total_signal_pct = total_signal (columns df) r,
                      top_risk_drivers = drivers r, rank = k\<rparr>)
                   [1 ..< length (ranked_frame df) + 1] (ranked_frame df)"
    by (auto simp: rank_studies_def Let_def split: if_splits)
  have len: "length [1 ..< length (ranked_frame df) + 1] = length (ranked_frame df)"
    by (simp only: length_upt add_diff_cancel_right')
  have "map rank out = map (\<lambda>k. k) [1 ..< length (ranked_frame df) + 1]"
    unfolding out by (rule map2_index [OF len]) simp
  then show "map rank out = [1 ..< length (rows df) + 1]"
    by (simp del: upt_Suc)
  show "map study_id out = map study_id (ranked_frame df)"
    unfolding out by (rule map2_project [OF len]) simp
  show "map dqi_score out = map (\<lambda>a. cells a ''dqi_score'') (ranked_frame df)"
    unfolding out by (rule map2_project [OF len]) simp
  show "map risk_level out = map risk (ranked_frame df)"
    unfolding out by (rule map2_project [OF len]) simp
qed

lemma length_cumcount [simp]: "length (cumcount seen xs) = length xs"
  by (induction xs arbitrary: seen) auto

lemma cumcount_per_key:
  "map snd (filter (\<lambda>p. fst p = s) (zip xs (cumcount seen xs)))
     = [count_list seen s ..< count_list seen s + count_list xs s]"
proof (induction xs arbitrary: seen)
  case Nil
  then show ?case by simp
next
  case (Cons x xs)
  show ?case
  proof (cases "x = s")
    case True
    have "[count_list seen s ..< count_list seen s + count_list (x # xs) s]
            = count_list seen s # [count_list seen s + 1 ..< count_list seen s + 1 + count_list xs s]"
      using True by (simp add: upt_conv_Cons)
    then show ?thesis using True Cons.IH [of "seen @ [x]"] by simp
  next
    case False
    then show ?thesis using Cons.IH [of "seen @ [x]"] by simp
  qed
qed

lemma rank_sites_out:
  assumes "rank_sites df = Inr out"
  shows "map global_rank out = [1 ..< length (rows df) + 1]"
    and "map study_id out = map study_id (ranked_frame df)"
    and "map site_id out = map site_id (ranked_frame df)"
    and "map dqi_score out = map (\<lambda>a. cells a ''dqi_score'') (ranked_frame df)"
    and "map risk_level out = map risk (ranked_frame df)"
    and "map risk_driver out = map driver_kind (ranked_frame df)"
    and "map within_study_rank out = map Suc (cumcount [] (map study_id (ranked_frame df)))"
proof -
  let ?ks = "zip [1 ..< length (ranked_frame df) + 1] (cumcount [] (map study_id (ranked_frame df)))"
  from assms have out: "out = map2 (\<lambda>(k, w) r.
                     \<lparr>study_id = study_id r, site_id = site_id r,
                      dqi_score = cells r ''dqi_score'', risk_level = risk r,
                      total_signal_pct = total_signal (columns df) r,
                      top_risk_drivers = drivers r,
                      global_rank = k, within_study_rank = w + 1, risk_driver = driver_kind r\<rparr>)
                   ?ks (ranked_frame df)"
    by (auto simp: rank_sites_def Let_def split: if_splits)
  have l1: "length [1 ..< length (ranked_frame df) + 1]
              = length (cumcount [] (map study_id (ranked_frame df)))"
    by (simp only: length_upt add_diff_cancel_right' length_cumcount length_map)
  have len: "length ?ks = length (ranked_frame df)"
    by (simp only: length_zip l1 length_cumcount length_map min.idem)
  have "map global_rank out = map (\<lambda>(k, w). k) ?ks"
    unfolding out by (rule map2_index [OF len]) (simp add: split_def)
  also have "\<dots> = map fst ?ks" by (simp add: split_def)
  also have "\<dots> = [1 ..< length (ranked_frame df) + 1]" by (rule map_fst_zip [OF l1])
  finally show "map global_rank out = [1 ..< length (rows df) + 1]" by (simp del: upt_Suc)
  have "map within_study_rank out = map (\<lambda>(k, w). w + 1) ?ks"
    unfolding out by (rule map2_index [OF len]) (simp add: split_def)
  also have "\<dots> = map Suc (map snd ?ks)" by (simp add: split_def)
  also have "map snd ?ks = cumcount [] (map study_id (ranked_frame df))" by (rule map_snd_zip [OF l1])
  finally show "map within_study_rank out = map Suc (cumcount [] (map study_id (ranked_frame df)))" .
  show "map study_id out = map study_id (ranked_frame df)"
    unfolding out by (rule map2_project [OF len]) (simp add: split_def)
  show "map site_id out = map site_id (ranked_frame df)"
    unfolding out by (rule map2_project [OF len]) (simp add: split_def)
  show "map dqi_score out = map (\<lambda>a. cells a ''dqi_score'') (ranked_frame df)"
    unfolding out by (rule map2_project [OF len]) (simp add: split_def)
  show "map risk_level out = map risk (ranked_frame df)"
    unfolding out by (rule map2_project [OF len]) (simp add: split_def)
  show "map risk_driver out = map driver_kind (ranked_frame df)"
    unfolding out by (rule map2_project [OF len]) (simp add: split_def)
qed

lemma within_study_ranks:
  assumes "rank_sites df = Inr out"
  shows "map within_study_rank (filter (\<lambda>e. study_id e = s) out)
           = [1 ..< length (filter (\<lambda>e. study_id e = s) out) + 1]"
proof -
  let ?ids = "map study_id (ranked_frame df)"
  have ids: "map study_id out = ?ids" using assms by (rule rank_sites_out)
  have ws: "map within_study_rank out = map Suc (cumcount [] ?ids)" using assms by (rule rank_sites_out)
  have "map (\<lambda>e. (study_id e, within_study_rank e)) out
          = zip (map study_id out) (map within_study_rank out)"
    by (simp add: zip_map_map [where xs = out and ys = out, simplified zip_same_conv_map] comp_def)
  also have "\<dots> = zip ?ids (map Suc (cumcount [] ?ids))" by (simp only: ids ws)
  also have "\<dots> = map (\<lambda>p. (fst p, Suc (snd p))) (zip ?ids (cumcount [] ?ids))"
    by (simp add: zip_map2 split_def)
  finally have pairs: "map (\<lambda>e. (study_id e, within_study_rank e)) out
          = map (\<lambda>p. (fst p, Suc (snd p))) (zip ?ids (cumcount [] ?ids))" .
  have "map within_study_rank (filter (\<lambda>e. study_id e = s) out)
          = map snd (filter (\<lambda>p. fst p = s) (map (\<lambda>e. (study_id e, within_study_rank e)) out))"
    by (simp add: filter_map comp_def)
  also have "\<dots> = map Suc (map snd (filter (\<lambda>p. fst p = s) (zip ?ids (cumcount [] ?ids))))"
    unfolding pairs by (simp add: filter_map comp_def)
  also have "\<dots> = map Suc [0 ..< count_list ?ids s]"
    by (simp only: cumcount_per_key) simp
  also have "\<dots> = [1 ..< count_list ?ids s + 1]"
    by (simp only: map_Suc_upt) simp
  also have "count_list ?ids s = length (filter (\<lambda>e. study_id e = s) out)"
    unfolding ids [symmetric] by (simp add: count_list_eq_length_filter filter_map comp_def eq_commute)
  finally show ?thesis .
qed

lemma rank_studies_tiers:
  assumes "rank_studies df = Inr out"
  shows "map (\<lambda>e. (study_id e, risk_level e)) out
           = map (\<lambda>p. (study_id (fst p), snd p)) (map (\<lambda>a. (source_row a, risk a)) (ranked_frame df))"
proof -
  have "map (\<lambda>e. (study_id e, risk_level e)) out = zip (map study_id out) (map risk_level out)"
    by (simp add: zip_map_map [where xs = out and ys = out, simplified zip_same_conv_map] comp_def)
  also have "\<dots> = zip (map study_id (ranked_frame df)) (map risk (ranked_frame df))"
    by (simp only: rank_studies_out(2) [OF assms] rank_studies_out(4) [OF assms])
  also have "\<dots> = map (\<lambda>a. (study_id a, risk a)) (ranked_frame df)"
    by (simp add: zip_map_map [where xs = "ranked_frame df" and ys = "ranked_frame df", simplified zip_same_conv_map] comp_def)
  finally show ?thesis by (simp add: comp_def)
qed

lemma rank_sites_tiers:
  assumes "rank_sites df = Inr out"
  shows "map (\<lambda>e. (site_id e, risk_level e)) out
           = map (\<lambda>p. (site_id (fst p), snd p)) (map (\<lambda>a. (source_row a, risk a)) (ranked_frame df))"
proof -
  have "map (\<lambda>e. (site_id e, risk_level e)) out = zip (map site_id out) (map risk_level out)"
    by (simp add: zip_map_map [where xs = out and ys = out, simplified zip_same_conv_map] comp_def)
  also have "\<dots> = zip (map site_id (ranked_frame df)) (map risk (ranked_frame df))"
    by (simp only: rank_sites_out(3) [OF assms] rank_sites_out(5) [OF assms])
  also have "\<dots> = map (\<lambda>a. (site_id a, risk a)) (ranked_frame df)"
    by (simp add: zip_map_map [where xs = "ranked_frame df" and ys = "ranked_frame df", simplified zip_same_conv_map] comp_def)
  finally show ?thesis by (simp add: comp_def)
qed

lemma no_drivers: "identify_top_penalty_drivers (row_series [''dqi_score'', ''dqi_score_amplified''] r) 2 = []"
  "identify_top_penalty_drivers (row_series [''dqi_score''] r) 2 = []"
  by (simp_all add: identify_top_penalty_drivers_def penalties_def signal_cols_def pct_cols_def
      row_series_def sorted_reverse_def slice_to_def)

lemma cat_amp: "categorize_risk_with_guardrails [60, 70, 80] = [''High Risk'', ''High Risk'', ''Low Risk'']"
  by (simp add: categorize_risk_with_guardrails_def quantile_def Let_def assign_risk_def le_nan_def)

lemma cat_plain: "categorize_risk_with_guardrails [90, 70, 80] = [''Low Risk'', ''High Risk'', ''High Risk'']"
  by (simp add: categorize_risk_with_guardrails_def quantile_def Let_def assign_risk_def le_nan_def)

lemma ranked_amplified:
  "ranked_frame amplified_sites =
    [\<lparr>study_id = ''Study 1'', site_id = ''Site 1'', cells = cells site_A,
      risk = ''High Risk'', drivers = '''', driver_kind = ''Rule-based''\<rparr>,
     \<lparr>study_id = ''Study 2'', site_id = ''Site 2'', cells = cells site_B,
      risk = ''High Risk'', drivers = '''', driver_kind = ''Rule-based''\<rparr>,
     \<lparr>study_id = ''Study 1'', site_id = ''Site 3'', cells = cells site_C,
      risk = ''Low Risk'', drivers = '''', driver_kind = ''Rule-based''\<rparr>]"
  by (simp add: ranked_frame_def categorized_def dqi_column_def amplified_sites_def no_drivers
      sort_values_def site_A_def site_B_def site_C_def cat_amp Let_def)

lemma ranked_plain:
  "ranked_frame plain_sites =
    [\<lparr>study_id = ''Study 2'', site_id = ''Site 2'', cells = cells site_B,
      risk = ''High Risk'', drivers = '''', driver_kind = ''Rule-based''\<rparr>,
     \<lparr>study_id = ''Study 1'', site_id = ''Site 3'', cells = cells site_C,
      risk = ''High Risk'', drivers = '''', driver_kind = ''Rule-based''\<rparr>,
     \<lparr>study_id = ''Study 1'', site_id = ''Site 1'', cells = cells site_A,
      risk = ''Low Risk'', drivers = '''', driver_kind = ''Rule-based''\<rparr>]"
  by (simp add: ranked_frame_def categorized_def dqi_column_def plain_sites_def no_drivers
      sort_values_def site_A_def site_B_def site_C_def cat_plain Let_def)

lemma total_signal_none [simp]:
  "total_signal [''dqi_score'', ''dqi_score_amplified''] r = 0" "total_signal [''dqi_score''] r = 0"
  by (simp_all add: total_signal_def get_or_zero_def)

lemma rank_sites_amplified:
  "rank_sites amplified_sites = Inr
    [\<lparr>study_id = ''Study 1'', site_id = ''Site 1'', dqi_score = 90, risk_level = ''High Risk'',
      total_signal_pct = 0, top_risk_drivers = '''',
      global_rank = 1, within_study_rank = 1, risk_driver = ''Rule-based''\<rparr>,
     \<lparr>study_id = ''Study 2'', site_id = ''Site 2'', dqi_score = 70, risk_level = ''High Risk'',
      total_signal_pct = 0, top_risk_drivers = '''',
      global_rank = 2, within_study_rank = 1, risk_driver = ''Rule-based''\<rparr>,
     \<lparr>study_id = ''Study 1'', site_id = ''Site 3'', dqi_score = 80, risk_level = ''Low Risk'',
      total_signal_pct = 0, top_risk_drivers = '''',
      global_rank = 3, within_study_rank = 2, risk_driver = ''Rule-based''\<rparr>]"
  unfolding rank_sites_def ranked_amplified Let_def
  by (simp add: amplified_sites_def site_A_def site_B_def site_C_def upt_rec)

lemma rank_studies_plain:
  "rank_studies plain_sites = Inr
    [\<lparr>study_id = ''Study 2'', site_id = ''Site 2'', dqi_score = 70, risk_level = ''High Risk'',
      total_signal_pct = 0, top_risk_drivers = '''', rank = 1\<rparr>,
     \<lparr>study_id = ''Study 1'', site_id = ''Site 3'', dqi_score = 80, risk_level = ''High Risk'',
      total_signal_pct = 0, top_risk_drivers = '''', rank = 2\<rparr>,
     \<lparr>study_id = ''Study 1'', site_id = ''Site 1'', dqi_score = 90, risk_level = ''Low Risk'',
      total_signal_pct = 0, top_risk_drivers = '''', rank = 3\<rparr>]"
  unfolding rank_studies_def ranked_plain Let_def
  by (simp add: plain_sites_def site_A_def site_B_def site_C_def upt_rec)

lemma rank_studies_plain_sites: "rank_studies plain_sites = Inr plain_ranking"
  unfolding plain_ranking_def by (rule rank_studies_plain)

lemma rank_sites_amplified_sites: "rank_sites amplified_sites = Inr amplified_ranking"
  unfolding amplified_ranking_def by (rule rank_sites_amplified)

text \<open>C7: ranking sorts the records ascending by the chosen DQI column and numbers them
  1, 2, 3, ...: the output lists a permutation of the input rows, in ascending order of that
  column.  For sites, \<open>within_study_rank\<close> read along the sorted table counts 1, 2, 3, ...
  separately in every study.\<close>

theorem ranking_contract:
  "(rank_studies df = Inr out \<longrightarrow>
      (\<exists>rs. mset rs = mset (rows df)
          \<and> sorted (map (\<lambda>r. cells r (dqi_column df)) rs)
          \<and> map study_id out = map study_id rs
          \<and> map dqi_score out = map (\<lambda>r. cells r ''dqi_score'') rs
          \<and> map rank out = [1 ..< length (rows df) + 1]))
   \<and> (rank_sites df = Inr souts \<longrightarrow>
      (\<exists>rs. mset rs = mset (rows df)
          \<and> sorted (map (\<lambda>r. cells r (dqi_column df)) rs)
          \<and> map study_id souts = map study_id rs
          \<and> map site_id souts = map site_id rs
          \<and> map dqi_score souts = map (\<lambda>r. cells r ''dqi_score'') rs
          \<and> map global_rank souts = [1 ..< length (rows df) + 1]
          \<and> (\<forall>s. map within_study_rank (filter (\<lambda>e. study_id e = s) souts)
                    = [1 ..< length (filter (\<lambda>e. study_id e = s) souts) + 1])))"
proof (intro conjI impI)
  assume a: "rank_studies df = Inr out"
  show "\<exists>rs. mset rs = mset (rows df)
          \<and> sorted (map (\<lambda>r. cells r (dqi_column df)) rs)
          \<and> map study_id out = map study_id rs
          \<and> map dqi_score out = map (\<lambda>r. cells r ''dqi_score'') rs
          \<and> map rank out = [1 ..< length (rows df) + 1]"
  proof (intro exI [of _ "map source_row (ranked_frame df)"] conjI)
    show "mset (map source_row (ranked_frame df)) = mset (rows df)" by (rule ranked_frame_rows)
    show "sorted (map (\<lambda>r. cells r (dqi_column df)) (map source_row (ranked_frame df)))"
      using ranked_frame_sorted [of df] by (simp add: comp_def)
    show "map study_id out = map study_id (map source_row (ranked_frame df))"
      using rank_studies_out(2) [OF a] by (simp add: comp_def)
    show "map dqi_score out = map (\<lambda>r. cells r ''dqi_score'') (map source_row (ranked_frame df))"
      using rank_studies_out(3) [OF a] by (simp add: comp_def)
    show "map rank out = [1 ..< length (rows df) + 1]" by (rule rank_studies_out(1) [OF a])
  qed
next
  assume a: "rank_sites df = Inr souts"
  show "\<exists>rs. mset rs = mset (rows df)
          \<and> sorted (map (\<lambda>r. cells r (dqi_column df)) rs)
          \<and> map study_id souts = map study_id rs
          \<and> map site_id souts = map site_id rs
          \<and> map dqi_score souts = map (\<lambda>r. cells r ''dqi_score'') rs
          \<and> map global_rank souts = [1 ..< length (rows df) + 1]
          \<and> (\<forall>s. map within_study_rank (filter (\<lambda>e. study_id e = s) souts)
                    = [1 ..< length (filter (\<lambda>e. study_id e = s) souts) + 1])"
  proof (intro exI [of _ "map source_row (ranked_frame df)"] conjI allI)
    show "mset (map source_row (ranked_frame df)) = mset (rows df)" by (rule ranked_frame_rows)
    show "sorted (map (\<lambda>r. cells r (dqi_column df)) (map source_row (ranked_frame df)))"
      using ranked_frame_sorted [of df] by (simp add: comp_def)
    show "map study_id souts = map study_id (map source_row (ranked_frame df))"
      using rank_sites_out(2) [OF a] by (simp add: comp_def)
    show "map site_id souts = map site_id (map source_row (ranked_frame df))"
      using rank_sites_out(3) [OF a] by (simp add: comp_def)
    show "map dqi_score souts = map (\<lambda>r. cells r ''dqi_score'') (map source_row (ranked_frame df))"
      using rank_sites_out(4) [OF a] by (simp add: comp_def)
    show "map global_rank souts = [1 ..< length (rows df) + 1]" by (rule rank_sites_out(1) [OF a])
    show "map within_study_rank (filter (\<lambda>e. study_id e = s) souts)
            = [1 ..< length (filter (\<lambda>e. study_id e = s) souts) + 1]" for s
      by (rule within_study_ranks [OF a])
  qed
qed

theorem ranking_contract_witness:
  "rank_studies plain_sites = Inr plain_ranking
   \<and> rank_sites amplified_sites = Inr amplified_ranking
   \<and> map rank plain_ranking = [1, 2, 3]
   \<and> map dqi_score plain_ranking = [70, 80, 90]
   \<and> map global_rank amplified_ranking = [1, 2, 3]
   \<and> map within_study_rank (filter (\<lambda>e. study_id e = ''Study 1'') amplified_ranking) = [1, 2]
   \<and> map within_study_rank (filter (\<lambda>e. study_id e = ''Study 2'') amplified_ranking) = [1]
   \<and> (\<exists>rs. mset rs = mset (rows amplified_sites)
          \<and> sorted (map (\<lambda>r. cells r (dqi_column amplified_sites)) rs)
          \<and> map site_id amplified_ranking = map site_id rs)
   \<and> (\<exists>rs. mset rs = mset (rows plain_sites)
          \<and> sorted (map (\<lambda>r. cells r (dqi_column plain_sites)) rs)
          \<and> map dqi_score plain_ranking = map (\<lambda>r. cells r ''dqi_score'') rs)"
proof -
  note t = ranking_contract [where df = amplified_sites and souts = amplified_ranking]
  note u = ranking_contract [where df = plain_sites and out = plain_ranking]
  from t rank_sites_amplified_sites
  have "\<exists>rs. mset rs = mset (rows amplified_sites)
          \<and> sorted (map (\<lambda>r. cells r (dqi_column amplified_sites)) rs)
          \<and> map site_id amplified_ranking = map site_id rs"
    by blast
  moreover from u rank_studies_plain_sites
  have "\<exists>rs. mset rs = mset (rows plain_sites)
          \<and> sorted (map (\<lambda>r. cells r (dqi_column plain_sites)) rs)
          \<and> map dqi_score plain_ranking = map (\<lambda>r. cells r ''dqi_score'') rs"
    by blast
  moreover have "map rank plain_ranking = [1, 2, 3]" "map dqi_score plain_ranking = [70, 80, 90]"
    "map global_rank amplified_ranking = [1, 2, 3]"
    "map within_study_rank (filter (\<lambda>e. study_id e = ''Study 1'') amplified_ranking) = [1, 2]"
    "map within_study_rank (filter (\<lambda>e. study_id e = ''Study 2'') amplified_ranking) = [1]"
    by (simp_all add: plain_ranking_def amplified_ranking_def)
  ultimately show ?thesis using rank_studies_plain_sites rank_sites_amplified_sites by blast
qed

text \<open>C8: when the input table has a \<open>dqi_score_amplified\<close> column, risk categorization
  and ranking, of studies and of sites, use it as the score, otherwise \<open>dqi_score\<close>: the
  risk levels in the output are those the categorizer gives to that column of the input,
  and the output is in ascending order of that column.\<close>

theorem amplified_column_preferred:
  assumes "c = (if ''dqi_score_amplified'' \<in> set (columns df) then ''dqi_score_amplified''
                else ''dqi_score'')"
    and "tiers = zip (rows df) (categorize_risk_with_guardrails (map (\<lambda>r. cells r c) (rows df)))"
  shows "(rank_studies df = Inr out \<longrightarrow>
            (\<exists>ps. mset ps = mset tiers
               \<and> sorted (map (\<lambda>p. cells (fst p) c) ps)
               \<and> map (\<lambda>e. (study_id e, risk_level e)) out = map (\<lambda>p. (study_id (fst p), snd p)) ps))
       \<and> (rank_sites df = Inr souts \<longrightarrow>
            (\<exists>ps. mset ps = mset tiers
               \<and> sorted (map (\<lambda>p. cells (fst p) c) ps)
               \<and> map (\<lambda>e. (site_id e, risk_level e)) souts = map (\<lambda>p. (site_id (fst p), snd p)) ps))"
proof -
  let ?ps = "map (\<lambda>a. (source_row a, risk a)) (ranked_frame df)"
  have c: "c = dqi_column df" using assms(1) by (simp add: dqi_column_def)
  have m: "mset ?ps = mset tiers" unfolding assms(2) c by (rule ranked_frame_pairs)
  have s: "sorted (map (\<lambda>p. cells (fst p) c) ?ps)"
    unfolding c using ranked_frame_sorted [of df] by (simp add: comp_def)
  show ?thesis
  proof (intro conjI impI)
    assume "rank_studies df = Inr out"
    then have "map (\<lambda>e. (study_id e, risk_level e)) out = map (\<lambda>p. (study_id (fst p), snd p)) ?ps"
      by (rule rank_studies_tiers)
    with m s show "\<exists>ps. mset ps = mset tiers
               \<and> sorted (map (\<lambda>p. cells (fst p) c) ps)
               \<and> map (\<lambda>e. (study_id e, risk_level e)) out = map (\<lambda>p. (study_id (fst p), snd p)) ps"
      by blast
  next
    assume "rank_sites df = Inr souts"
    then have "map (\<lambda>e. (site_id e, risk_level e)) souts = map (\<lambda>p. (site_id (fst p), snd p)) ?ps"
      by (rule rank_sites_tiers)
    with m s show "\<exists>ps. mset ps = mset tiers
               \<and> sorted (map (\<lambda>p. cells (fst p) c) ps)
               \<and> map (\<lambda>e. (site_id e, risk_level e)) souts = map (\<lambda>p. (site_id (fst p), snd p)) ps"
      by blast
  qed
qed

theorem amplified_column_preferred_witness:
  "''dqi_score_amplified'' \<in> set (columns amplified_sites)
   \<and> ''dqi_score_amplified'' \<notin> set (columns plain_sites)
   \<and> rank_sites amplified_sites = Inr amplified_ranking
   \<and> rank_studies plain_sites = Inr plain_ranking
   \<and> map site_id amplified_ranking = [''Site 1'', ''Site 2'', ''Site 3'']
   \<and> map site_id plain_ranking = [''Site 2'', ''Site 3'', ''Site 1'']
   \<and> (\<exists>ps. mset ps = mset (zip (rows amplified_sites)
                (categorize_risk_with_guardrails
                   (map (\<lambda>r. cells r ''dqi_score_amplified'') (rows amplified_sites))))
         \<and> sorted (map (\<lambda>p. cells (fst p) ''dqi_score_amplified'') ps)
         \<and> map (\<lambda>e. (site_id e, risk_level e)) amplified_ranking
              = map (\<lambda>p. (site_id (fst p), snd p)) ps)
   \<and> (\<exists>ps. mset ps = mset (zip (rows plain_sites)
                (categorize_risk_with_guardrails
                   (map (\<lambda>r. cells r ''dqi_score'') (rows plain_sites))))
         \<and> sorted (map (\<lambda>p. cells (fst p) ''dqi_score'') ps)
         \<and> map (\<lambda>e. (study_id e, risk_level e)) plain_ranking
              = map (\<lambda>p. (study_id (fst p), snd p)) ps)"
proof -
  have a: "''dqi_score_amplified'' \<in> set (columns amplified_sites)"
    by (simp add: amplified_sites_def)
  have p: "''dqi_score_amplified'' \<notin> set (columns plain_sites)"
    by (simp add: plain_sites_def)
  have ca: "''dqi_score_amplified'' = (if ''dqi_score_amplified'' \<in> set (columns amplified_sites)
              then ''dqi_score_amplified'' else ''dqi_score'')"
    using a by simp
  have cp: "''dqi_score'' = (if ''dqi_score_amplified'' \<in> set (columns plain_sites)
              then ''dqi_score_amplified'' else ''dqi_score'')"
    using p by simp
  note ta = amplified_column_preferred [OF ca refl, where souts = amplified_ranking]
  note tp = amplified_column_preferred [OF cp refl, where out = plain_ranking]
  have ids: "map site_id amplified_ranking = [''Site 1'', ''Site 2'', ''Site 3'']"
    "map site_id plain_ranking = [''Site 2'', ''Site 3'', ''Site 1'']"
    by (simp_all add: amplified_ranking_def plain_ranking_def)
  from ta rank_sites_amplified_sites have
    "\<exists>ps. mset ps = mset (zip (rows amplified_sites)
                (categorize_risk_with_guardrails
                   (map (\<lambda>r. cells r ''dqi_score_amplified'') (rows amplified_sites))))
         \<and> sorted (map (\<lambda>p. cells (fst p) ''dqi_score_amplified'') ps)
         \<and> map (\<lambda>e. (site_id e, risk_level e)) amplified_ranking
              = map (\<lambda>p. (site_id (fst p), snd p)) ps"
    by blast
  moreover from tp rank_studies_plain_sites have
    "\<exists>ps. mset ps = mset (zip (rows plain_sites)
                (categorize_risk_with_guardrails
                   (map (\<lambda>r. cells r ''dqi_score'') (rows plain_sites))))
         \<and> sorted (map (\<lambda>p. cells (fst p) ''dqi_score'') ps)
         \<and> map (\<lambda>e. (study_id e, risk_level e)) plain_ranking
              = map (\<lambda>p. (study_id (fst p), snd p)) ps"
    by blast
  ultimately show ?thesis
    using a p ids rank_sites_amplified_sites rank_studies_plain_sites by blast
qed

section \<open>Degradation without the anomaly module\<close>

lemma insort_key_map:
  "insort_key f (g x) (map g ys) = map g (insort_key (\<lambda>a. f (g a)) x ys)"
  by (induction ys) auto

lemma sort_key_map: "sort_key f (map g xs) = map g (sort_key (\<lambda>a. f (g a)) xs)"
  by (induction xs) (auto simp: insort_key_map)

lemma penalties_cong:
  assumes "\<forall>c \<in> set (map fst penalty_cols @ map fst pct_cols). s c = s' c"
  shows "penalties s = penalties s'"
  using assms by (simp add: penalties_def signal_cols_def penalty_cols_def pct_cols_def)

lemma identify_cong:
  assumes "\<forall>c \<in> set (map fst penalty_cols @ map fst pct_cols). s c = s' c"
  shows "identify_top_penalty_drivers s n = identify_top_penalty_drivers s' n"
  by (simp add: identify_top_penalty_drivers_def penalties_cong [OF assms])

lemma with_amplified_fields [simp]:
  "study_id (with_amplified r) = study_id r" "site_id (with_amplified r) = site_id r"
  "cells (with_amplified r) ''dqi_score_amplified'' = cells r ''dqi_score''"
  "c \<noteq> ''dqi_score_amplified'' \<Longrightarrow> cells (with_amplified r) c = cells r c"
  by (simp_all add: with_amplified_def)

lemma with_amplified_ranked [simp]:
  "risk (with_amplified a) = risk a" "drivers (with_amplified a) = drivers a"
  "driver_kind (with_amplified a) = driver_kind a"
  by (simp_all add: with_amplified_def)

lemma assign_amplified:
  "rows (assign_column ''dqi_score_amplified'' (\<lambda>r. cells r ''dqi_score'') df)
     = map with_amplified (rows df)"
  "''dqi_score_amplified'' \<notin> set (columns df) \<Longrightarrow>
     columns (assign_column ''dqi_score_amplified'' (\<lambda>r. cells r ''dqi_score'') df)
       = columns df @ [''dqi_score_amplified'']"
  by (simp_all add: assign_column_def with_amplified_def)

lemma drivers_unchanged:
  "identify_top_penalty_drivers (row_series (cols @ [''dqi_score_amplified'']) (with_amplified r)) n
     = identify_top_penalty_drivers (row_series cols r) n"
  by (rule identify_cong) (simp add: row_series_def penalty_cols_def pct_cols_def)

lemma total_signal_unchanged:
  "total_signal (cols @ [''dqi_score_amplified'']) (with_amplified r) = total_signal cols r"
  by (simp add: total_signal_def get_or_zero_def)

lemma map2_map_both:
  "length xs = length ys \<Longrightarrow> (\<And>x y. F' (u x) y = w (F x y)) \<Longrightarrow>
     map2 F' (map u xs) ys = map w (map2 F xs ys)"
  by (induction xs ys rule: list_induct2) auto

lemma categorized_fallback:
  assumes "''dqi_score_amplified'' \<notin> set (columns df)"
  shows "categorized (assign_column ''dqi_score_amplified'' (\<lambda>r. cells r ''dqi_score'') df)
           = map with_amplified (categorized df)"
proof -
  let ?df' = "assign_column ''dqi_score_amplified'' (\<lambda>r. cells r ''dqi_score'') df"
  have c': "dqi_column ?df' = ''dqi_score_amplified''"
    by (simp add: dqi_column_def assign_amplified(2) [OF assms])
  have c: "dqi_column df = ''dqi_score''" using assms by (simp add: dqi_column_def)
  have scores: "map (\<lambda>r. cells r ''dqi_score_amplified'') (map with_amplified (rows df))
                  = map (\<lambda>r. cells r ''dqi_score'') (rows df)"
    by (simp add: comp_def)
  show ?thesis
    unfolding categorized_def Let_def c c' assign_amplified(1) assign_amplified(2) [OF assms] scores
    by (rule map2_map_both)
       (simp_all add: drivers_unchanged, simp add: with_amplified_def)
qed

lemma ranked_frame_fallback:
  assumes "''dqi_score_amplified'' \<notin> set (columns df)"
  shows "ranked_frame (assign_column ''dqi_score_amplified'' (\<lambda>r. cells r ''dqi_score'') df)
           = map with_amplified (ranked_frame df)"
proof -
  let ?df' = "assign_column ''dqi_score_amplified'' (\<lambda>r. cells r ''dqi_score'') df"
  have c': "dqi_column ?df' = ''dqi_score_amplified''"
    by (simp add: dqi_column_def assign_amplified(2) [OF assms])
  have c: "dqi_column df = ''dqi_score''" using assms by (simp add: dqi_column_def)
  show ?thesis
    unfolding ranked_frame_def sort_values_def c c' categorized_fallback [OF assms]
    by (simp add: sort_key_map comp_def)
qed

lemma rank_sites_fallback:
  assumes "''dqi_score_amplified'' \<notin> set (columns df)"
  shows "rank_sites (assign_column ''dqi_score_amplified'' (\<lambda>r. cells r ''dqi_score'') df)
           = rank_sites df"
proof -
  have ids: "map study_id (map with_amplified (ranked_frame df)) = map study_id (ranked_frame df)"
    by (simp add: comp_def)
  show ?thesis
    unfolding rank_sites_def Let_def ranked_frame_fallback [OF assms] assign_amplified(2) [OF assms] ids
    by (simp add: zip_map2 total_signal_unchanged split_def)
qed

lemma rule_based_only:
  assumes "''is_anomalous'' \<notin> set (columns df)" and "a \<in> set (ranked_frame df)"
  shows "driver_kind a = ''Rule-based''"
proof -
  from assms(2) have "a \<in> set (categorized df)"
    by (simp add: ranked_frame_def sort_values_def)
  then show ?thesis
    using assms(1) unfolding categorized_def Let_def by (auto simp: in_set_zip)
qed

lemma main_fallback:
  assumes "compute_dqi_study_level study_signals = Inr study_dqi"
    and "compute_dqi_site_level site_signals = Inr site_dqi"
  shows "compute_dqi_main False detect amplify (Some study_signals) (Some site_signals)
           = Inr (study_dqi, assign_column ''dqi_score_amplified'' (\<lambda>r. cells r ''dqi_score'') site_dqi)"
  by (simp add: compute_dqi_main_def assms)

lemma example_site_dqi: "compute_dqi_site_level example_signals = Inr example_dqi_frame"
  by (simp add: compute_dqi_site_level_def dqi_frame_def example_signals_def signal_columns_def
      add_columns_def example_dqi_frame_def)

lemma example_study_dqi: "compute_dqi_study_level example_signals = Inr example_dqi_frame"
  unfolding example_dqi_frame_def by (rule example_dqi)

text \<open>C3: when the anomaly module cannot be imported and the rule-based computation
  succeeds on signal tables (which have neither a \<open>dqi_score_amplified\<close> nor an
  \<open>is_anomalous\<close> column), the run is not an error; the study output is the rule-based
  study table; the site output is the rule-based site table with one more column,
  \<open>dqi_score_amplified\<close>, equal to \<open>dqi_score\<close> in every row; no site is marked
  anomalous, and the site ranking is the same as that of the rule-based site table.\<close>

theorem degradation_without_anomaly_module:
  assumes "compute_dqi_study_level study_signals = Inr study_dqi"
    and "compute_dqi_site_level site_signals = Inr site_dqi"
    and "''dqi_score_amplified'' \<notin> set (columns site_signals)"
    and "''is_anomalous'' \<notin> set (columns site_signals)"
  shows "\<exists>site_out.
      compute_dqi_main False detect amplify (Some study_signals) (Some site_signals)
        = Inr (study_dqi, site_out)
      \<and> columns site_out = columns site_dqi @ [''dqi_score_amplified'']
      \<and> map (\<lambda>r. (study_id r, site_id r)) (rows site_out)
            = map (\<lambda>r. (study_id r, site_id r)) (rows site_dqi)
      \<and> (\<forall>c \<in> set (columns site_dqi).
            map (\<lambda>r. cells r c) (rows site_out) = map (\<lambda>r. cells r c) (rows site_dqi))
      \<and> (\<forall>r \<in> set (rows site_out). cells r ''dqi_score_amplified'' = cells r ''dqi_score'')
      \<and> ''is_anomalous'' \<notin> set (columns site_out)
      \<and> rank_sites site_out = rank_sites site_dqi
      \<and> (\<forall>ranked. rank_sites site_out = Inr ranked \<longrightarrow>
            length (filter (\<lambda>e. risk_driver e = ''ML-Detected Anomaly'') ranked) = 0)"
proof -
  let ?out = "assign_column ''dqi_score_amplified'' (\<lambda>r. cells r ''dqi_score'') site_dqi"
  have site: "dqi_frame site_signals = Inr site_dqi"
    using assms(2) by (simp add: compute_dqi_site_level_def)
  have amp: "''dqi_score_amplified'' \<notin> set (columns site_dqi)"
    using site assms(3) by (rule dqi_frame_new_column) simp
  have ano: "''is_anomalous'' \<notin> set (columns site_dqi)"
    using site assms(4) by (rule dqi_frame_new_column) simp
  have cols: "columns ?out = columns site_dqi @ [''dqi_score_amplified'']"
    by (rule assign_amplified(2) [OF amp])
  have ids: "map (\<lambda>r. (study_id r, site_id r)) (rows ?out)
               = map (\<lambda>r. (study_id r, site_id r)) (rows site_dqi)"
    by (simp add: assign_amplified(1) comp_def)
  have same: "\<forall>c \<in> set (columns site_dqi).
      map (\<lambda>r. cells r c) (rows ?out) = map (\<lambda>r. cells r c) (rows site_dqi)"
  proof
    fix c assume "c \<in> set (columns site_dqi)"
    with amp have "c \<noteq> ''dqi_score_amplified''" by auto
    then show "map (\<lambda>r. cells r c) (rows ?out) = map (\<lambda>r. cells r c) (rows site_dqi)"
      by (simp add: assign_amplified(1) comp_def)
  qed
  have eq: "\<forall>r \<in> set (rows ?out). cells r ''dqi_score_amplified'' = cells r ''dqi_score''"
    by (auto simp: assign_amplified(1))
  have ano': "''is_anomalous'' \<notin> set (columns ?out)" using ano by (simp add: cols)
  have rk: "rank_sites ?out = rank_sites site_dqi" by (rule rank_sites_fallback [OF amp])
  have none: "\<forall>ranked. rank_sites ?out = Inr ranked \<longrightarrow>
            length (filter (\<lambda>e. risk_driver e = ''ML-Detected Anomaly'') ranked) = 0"
  proof (intro allI impI)
    fix ranked assume r: "rank_sites ?out = Inr ranked"
    have "\<forall>k \<in> set (map risk_driver ranked). k = ''Rule-based''"
      unfolding rank_sites_out(6) [OF r] using rule_based_only [OF ano'] by auto
    then have "filter (\<lambda>e. risk_driver e = ''ML-Detected Anomaly'') ranked = []"
      by (auto simp: filter_empty_conv)
    then show "length (filter (\<lambda>e. risk_driver e = ''ML-Detected Anomaly'') ranked) = 0"
      by simp
  qed
  from main_fallback [OF assms(1,2)] cols ids same eq ano' rk none show ?thesis by blast
qed

theorem degradation_without_anomaly_module_witness:
  "compute_dqi_study_level example_signals = Inr example_dqi_frame
   \<and> compute_dqi_site_level example_signals = Inr example_dqi_frame
   \<and> ''dqi_score_amplified'' \<notin> set (columns example_signals)
   \<and> ''is_anomalous'' \<notin> set (columns example_signals)
   \<and> (\<exists>site_out.
        compute_dqi_main False (\<lambda>d. d) (\<lambda>d a. d) (Some example_signals) (Some example_signals)
          = Inr (example_dqi_frame, site_out)
        \<and> columns site_out = columns example_dqi_frame @ [''dqi_score_amplified'']
        \<and> rank_sites site_out = rank_sites example_dqi_frame)
   \<and> cells (with_amplified (dqi_cells example_row)) ''dqi_score_amplified'' = 8052 / 100"
proof -
  have a: "''dqi_score_amplified'' \<notin> set (columns example_signals)"
    by (simp add: example_signals_def signal_columns_def)
  have b: "''is_anomalous'' \<notin> set (columns example_signals)"
    by (simp add: example_signals_def signal_columns_def)
  from degradation_without_anomaly_module [OF example_study_dqi example_site_dqi a b,
      of "\<lambda>d. d" "\<lambda>d a. d"]
  have "\<exists>site_out.
        compute_dqi_main False (\<lambda>d. d) (\<lambda>d a. d) (Some example_signals) (Some example_signals)
          = Inr (example_dqi_frame, site_out)
        \<and> columns site_out = columns example_dqi_frame @ [''dqi_score_amplified'']
        \<and> rank_sites site_out = rank_sites example_dqi_frame"
    by blast
  moreover have "cells (with_amplified (dqi_cells example_row)) ''dqi_score_amplified'' = 8052 / 100"
    by (simp add: example_values(1))
  ultimately show ?thesis using example_study_dqi example_site_dqi a b by blast
qed

end
